theory Spec2Isabelle
  imports Complex_Main
begin

section \<open>ARES GPU memory manager: the reservation strategy of nodes.py\<close>

text \<open>
  A shallow embedding of \<^verbatim>\<open>src/nodes.py\<close>: the telemetry wrapper \<^verbatim>\<open>GPUManager\<close>,
  the reclaimer \<^verbatim>\<open>MemoryCleaner\<close>, the strategy engine \<^verbatim>\<open>MemoryStrategyCalculator\<close>
  and the two nodes \<^verbatim>\<open>ReservedMemorySetter\<close> and \<^verbatim>\<open>BatchMemoryCleaner\<close>.

  Conventions of the model.
  \<^item> Every quantity that is a Python \<^verbatim>\<open>float\<close> in the source (gigabytes, ratios) is a
    rational number here and arithmetic on it is exact. Rounding of binary floating
    point, NaN and the infinities are not part of this model; the literals
    \<^verbatim>\<open>0.9\<close>, \<^verbatim>\<open>0.85\<close>, \<^verbatim>\<open>0.8\<close>, \<^verbatim>\<open>0.2\<close>, \<^verbatim>\<open>0.4\<close> are the fractions they denote.
    Where a property is about NaN or the infinities, the calculator is modelled a
    second time over floats that have these values (the definitions with the suffix
    \<open>_fl\<close>).
  \<^item> Python integers are \<open>int\<close>.
  \<^item> An exception is a value \<open>Inl e\<close> of a sum type; \<^verbatim>\<open>try/except Exception\<close> is a
    case distinction on it.
  \<^item> The f-strings returned as explanations are values of the datatype \<open>detail\<close>, one
    constructor for each template of the source, carrying the numbers the template
    formats. Calls of \<^verbatim>\<open>logger\<close> have no effect on any returned value and are left out.
\<close>

subsection \<open>Constants\<close>

definition GB_TO_BYTES :: int where
  "GB_TO_BYTES = 1024 * 1024 * 1024"

definition MB_TO_BYTES :: int where
  "MB_TO_BYTES = 1024 * 1024"

definition MIN_RESERVED_GB :: rat where
  "MIN_RESERVED_GB = 6 / 10"

definition DEFAULT_RESERVED_GB :: rat where
  "DEFAULT_RESERVED_GB = 1"

definition MIN_SAFE_RESERVE_GB :: rat where
  "MIN_SAFE_RESERVE_GB = 2"

definition MAX_RESERVED_RATIO :: rat where
  "MAX_RESERVED_RATIO = 9 / 10"

text \<open>The dictionary \<^verbatim>\<open>MEMORY_STRATEGY\<close>, keyed by strings.\<close>

definition MEMORY_STRATEGY :: "string \<Rightarrow> rat option" where
  "MEMORY_STRATEGY = map_of [(''tight'', 8 / 10), (''medium'', 85 / 100), (''loose'', 9 / 10)]"

subsection \<open>Python primitives\<close>

datatype error = ZeroDivisionError | KeyError | RuntimeError | ValueError | OverflowError

text \<open>\<^verbatim>\<open>int(x)\<close> on a float truncates toward zero.\<close>

definition int_trunc :: "rat \<Rightarrow> int" where
  "int_trunc x = (if x < 0 then \<lceil>x\<rceil> else \<lfloor>x\<rfloor>)"

text \<open>\<^verbatim>\<open>a / b\<close> on floats raises \<^verbatim>\<open>ZeroDivisionError\<close> when \<^verbatim>\<open>b\<close> is zero.\<close>

definition truediv :: "rat \<Rightarrow> rat \<Rightarrow> error + rat" where
  "truediv a b = (if b = 0 then Inl ZeroDivisionError else Inr (a / b))"

text \<open>\<^verbatim>\<open>d[k]\<close> raises \<^verbatim>\<open>KeyError\<close> when the key is missing.\<close>

definition getitem :: "('k \<Rightarrow> 'v option) \<Rightarrow> 'k \<Rightarrow> error + 'v" where
  "getitem d k = (case d k of None \<Rightarrow> Inl KeyError | Some v \<Rightarrow> Inr v)"

subsection \<open>The device and the telemetry wrapper GPUManager\<close>

text \<open>
  A memory snapshot is the tuple \<^verbatim>\<open>(total_gb, used_gb, free_gb)\<close> returned by
  \<^verbatim>\<open>get_gpu_memory_info\<close>.
\<close>

type_synonym snapshot = "rat \<times> rat \<times> rat"

text \<open>
  The state outside the module that the code reads and writes: what the pynvml
  library answers, what torch reports, and the slot
  \<^verbatim>\<open>model_management.EXTRA_RESERVED_MEMORY\<close>. A pynvml call that raises is \<open>None\<close>.
  \<open>nvmlDeviceGetMemoryInfo\<close> stands for \<^verbatim>\<open>nvmlDeviceGetHandleByIndex\<close> followed by
  \<^verbatim>\<open>nvmlDeviceGetMemoryInfo\<close> and gives the fields \<^verbatim>\<open>total\<close>, \<^verbatim>\<open>used\<close>, \<^verbatim>\<open>free\<close> in bytes.
\<close>

record world =
  pynvml_available :: bool
  nvmlDeviceGetCount :: "int option"
  nvmlDeviceGetMemoryInfo :: "int \<Rightarrow> (int \<times> int \<times> int) option"
  cuda_is_available :: bool
  cuda_device_count :: int
  EXTRA_RESERVED_MEMORY :: int

definition get_gpu_count :: "world \<Rightarrow> int" where
  "get_gpu_count w =
     (if \<not> pynvml_available w then
        (if cuda_is_available w then cuda_device_count w else 0)
      else (case nvmlDeviceGetCount w of Some n \<Rightarrow> n | None \<Rightarrow> 0))"

definition validate_gpu_index :: "world \<Rightarrow> int \<Rightarrow> bool" where
  "validate_gpu_index w gpu_index =
     (let gpu_count = get_gpu_count w in
      if gpu_index < 0 \<or> gpu_index \<ge> gpu_count then False else True)"

definition get_gpu_memory_info :: "world \<Rightarrow> int \<Rightarrow> snapshot option" where
  "get_gpu_memory_info w gpu_index =
     (if \<not> pynvml_available w then None
      else if \<not> validate_gpu_index w gpu_index then None
      else (case nvmlDeviceGetMemoryInfo w gpu_index of
              None \<Rightarrow> None
            | Some (total_bytes, used_bytes, free_bytes) \<Rightarrow>
                (let total_gb = of_int total_bytes / of_int GB_TO_BYTES;
                     used_gb = of_int used_bytes / of_int GB_TO_BYTES;
                     free_gb = of_int free_bytes / of_int GB_TO_BYTES
                 in Some (total_gb, used_gb, free_gb))))"

subsection \<open>The strategy engine MemoryStrategyCalculator\<close>

text \<open>The three labels of smart mode (the \<^verbatim>\<open>status\<close> strings of the source).\<close>

datatype status = Tight | Medium | Loose

text \<open>
  The explanation strings. In the order of the constructors:
  manual mode limited to the ratio (\<open>reserved\<close>, \<open>safe_reserved\<close>);
  manual mode with device information (\<open>manual_reserved\<close>, \<open>total_gb\<close>, \<open>used_gb\<close>);
  manual mode without device information (\<open>manual_reserved\<close>);
  auto mode limited to 85 percent (\<open>auto_reserved\<close>, \<open>safe_reserved\<close>, \<open>used_gb\<close>, \<open>reserved\<close>);
  auto mode (\<open>safe_reserved\<close>, \<open>used_gb\<close>, \<open>reserved\<close>);
  smart mode without device information (\<open>default_value\<close>);
  smart mode (\<open>safe_reserved\<close>, the status, \<open>free_gb\<close>, \<open>total_gb\<close>, the ratio in percent,
  and the suffix with \<open>smart_reserved\<close> and \<open>safe_reserved\<close> when they differ);
  the fixed text of the unknown-mode branch, which reads "default mode".
  The type parameter is the type of the numbers.
\<close>

datatype 'n detail =
    Manual_limited 'n 'n
  | Manual_info 'n 'n 'n
  | Manual_no_gpu 'n
  | Auto_limited 'n 'n 'n 'n
  | Auto_info 'n 'n 'n
  | Smart_no_gpu 'n
  | Smart_info 'n status 'n 'n 'n "('n \<times> 'n) option"
  | Default_mode

definition manual_mode :: "rat \<Rightarrow> rat \<Rightarrow> snapshot option \<Rightarrow> int \<times> rat detail" where
  "manual_mode reserved min_safe_reserve memory_info =
     (let manual_reserved = max reserved min_safe_reserve in
      case memory_info of
        Some (total_gb, used_gb, free_gb) \<Rightarrow>
          (let max_allowed = total_gb * MAX_RESERVED_RATIO in
           if manual_reserved > max_allowed then
             (let safe_reserved = max_allowed in
              (int_trunc (safe_reserved * of_int GB_TO_BYTES),
               Manual_limited reserved safe_reserved))
           else
             (int_trunc (manual_reserved * of_int GB_TO_BYTES),
              Manual_info manual_reserved total_gb used_gb))
      | None \<Rightarrow>
          (int_trunc (manual_reserved * of_int GB_TO_BYTES), Manual_no_gpu manual_reserved))"

definition auto_mode :: "rat \<Rightarrow> rat \<Rightarrow> snapshot option \<Rightarrow> int \<times> rat detail" where
  "auto_mode reserved min_safe_reserve memory_info =
     (case memory_info of
        None \<Rightarrow> manual_mode reserved min_safe_reserve None
      | Some (total_gb, used_gb, free_gb) \<Rightarrow>
          (let auto_reserved = used_gb + reserved;
               auto_reserved = max auto_reserved min_safe_reserve;
               max_allowed = total_gb * (85 / 100);
               safe_reserved = min auto_reserved max_allowed;
               detail = (if auto_reserved \<noteq> safe_reserved
                         then Auto_limited auto_reserved safe_reserved used_gb reserved
                         else Auto_info safe_reserved used_gb reserved)
           in (int_trunc (safe_reserved * of_int GB_TO_BYTES), detail)))"

text \<open>
  Smart mode: the division \<^verbatim>\<open>free_gb / total_gb\<close> raises when \<^verbatim>\<open>total_gb\<close> is zero, and
  nothing in the calculator catches it.
\<close>

definition smart_mode :: "rat \<Rightarrow> rat \<Rightarrow> snapshot option \<Rightarrow> error + (int \<times> rat detail)" where
  "smart_mode reserved min_safe_reserve memory_info =
     (case memory_info of
        None \<Rightarrow>
          (let default_value = max (reserved + 1) min_safe_reserve in
           Inr (int_trunc (default_value * of_int GB_TO_BYTES), Smart_no_gpu default_value))
      | Some (total_gb, used_gb, free_gb) \<Rightarrow>
          (case truediv free_gb total_gb of
             Inl e \<Rightarrow> Inl e
           | Inr available_ratio \<Rightarrow>
               (let base_reserved = used_gb + reserved in
                case
                  (if available_ratio < 2 / 10 then
                     (case getitem MEMORY_STRATEGY ''tight'' of
                        Inl e \<Rightarrow> Inl e
                      | Inr strategy_ratio \<Rightarrow>
                          Inr (max base_reserved (total_gb * strategy_ratio), Tight))
                   else if available_ratio < 4 / 10 then
                     (case getitem MEMORY_STRATEGY ''medium'' of
                        Inl e \<Rightarrow> Inl e
                      | Inr strategy_ratio \<Rightarrow> Inr (base_reserved, Medium))
                   else
                     (case getitem MEMORY_STRATEGY ''loose'' of
                        Inl e \<Rightarrow> Inl e
                      | Inr strategy_ratio \<Rightarrow>
                          Inr (max base_reserved min_safe_reserve, Loose)))
                of
                  Inl e \<Rightarrow> Inl e
                | Inr (smart_reserved, status) \<Rightarrow>
                    (let smart_reserved = max smart_reserved min_safe_reserve;
                         max_allowed = total_gb * MAX_RESERVED_RATIO;
                         safe_reserved = min smart_reserved max_allowed;
                         adjust = (if smart_reserved \<noteq> safe_reserved
                                   then Some (smart_reserved, safe_reserved) else None)
                     in Inr (int_trunc (safe_reserved * of_int GB_TO_BYTES),
                             Smart_info safe_reserved status free_gb total_gb
                               (available_ratio * 100) adjust)))))"

definition calculate_reserved_memory ::
  "rat \<Rightarrow> string \<Rightarrow> int \<Rightarrow> rat \<Rightarrow> world \<Rightarrow> error + (int \<times> rat detail)" where
  "calculate_reserved_memory reserved mode gpu_index min_safe_reserve gpu_manager =
     (let memory_info = get_gpu_memory_info gpu_manager gpu_index in
      if mode = ''manual'' then Inr (manual_mode reserved min_safe_reserve memory_info)
      else if mode = ''auto'' then Inr (auto_mode reserved min_safe_reserve memory_info)
      else if mode = ''smart'' then smart_mode reserved min_safe_reserve memory_info
      else Inr (int_trunc (max reserved min_safe_reserve * of_int GB_TO_BYTES), Default_mode))"

subsection \<open>The reclaimer MemoryCleaner\<close>

text \<open>
  The calls into torch, the garbage collector and the host change the device in ways
  the module does not control, so they are parameters of the model. Each takes the
  state and gives the state after the call; \<open>Some e\<close> in the first component says that
  the call raised \<open>e\<close>.
  \<open>empty_cache\<close> is \<^verbatim>\<open>torch.cuda.empty_cache()\<close> followed by \<^verbatim>\<open>torch.cuda.synchronize()\<close>
  on the current device, \<open>empty_cache_on i\<close> the same two calls inside
  \<^verbatim>\<open>with torch.cuda.device(i)\<close>, \<open>gc_collect\<close> is \<^verbatim>\<open>gc.collect()\<close> with the number of
  collected objects, and \<open>cleanup_models\<close> is \<^verbatim>\<open>model_management.cleanup_models\<close>,
  \<open>None\<close> when the host has no such attribute.
\<close>

record externals =
  empty_cache :: "world \<Rightarrow> error option \<times> world"
  empty_cache_on :: "int \<Rightarrow> world \<Rightarrow> error option \<times> world"
  gc_collect :: "world \<Rightarrow> int \<times> world"
  cleanup_models :: "(world \<Rightarrow> error option \<times> world) option"

text \<open>The dictionary returned by \<^verbatim>\<open>clear_gpu_memory\<close>.\<close>

record clean_result =
  success :: bool
  torch_cuda :: bool
  gc_collected :: int
  before_memory :: "snapshot option"
  after_memory :: "snapshot option"
  freed_memory_gb :: rat
  freed_memory_mb :: rat

definition clear_gpu_memory :: "externals \<Rightarrow> world \<Rightarrow> int \<Rightarrow> clean_result \<times> world" where
  "clear_gpu_memory ext w gpu_index =
     (let result = \<lparr>success = False, torch_cuda = False, gc_collected = 0,
                     before_memory = None, after_memory = None,
                     freed_memory_gb = 0, freed_memory_mb = 0\<rparr>;
          result = result\<lparr>before_memory := get_gpu_memory_info w gpu_index\<rparr>
      in case (if cuda_is_available w then empty_cache ext w else (None, w)) of
           (Some e, w) \<Rightarrow> (result\<lparr>success := False\<rparr>, w)
         | (None, w1) \<Rightarrow>
             (let result = (if cuda_is_available w then result\<lparr>torch_cuda := True\<rparr> else result);
                  (collected, w2) = gc_collect ext w1;
                  result = result\<lparr>gc_collected := collected\<rparr>;
                  result = result\<lparr>after_memory := get_gpu_memory_info w2 gpu_index\<rparr>
              in case (before_memory result, after_memory result) of
                   (Some (total_before, used_before, free_before),
                    Some (total_after, used_after, free_after)) \<Rightarrow>
                     (let freed_gb = used_before - used_after;
                          freed_mb = freed_gb * 1024
                      in (result\<lparr>freed_memory_gb := freed_gb, freed_memory_mb := freed_mb,
                                  success := True\<rparr>, w2))
                 | _ \<Rightarrow> (result\<lparr>success := True\<rparr>, w2)))"

text \<open>The loop of \<^verbatim>\<open>clear_all_caches\<close> over the devices; an exception ends it.\<close>

fun empty_cache_all :: "externals \<Rightarrow> int list \<Rightarrow> world \<Rightarrow> error option \<times> world" where
  "empty_cache_all ext [] w = (None, w)"
| "empty_cache_all ext (i # rest) w =
     (case empty_cache_on ext i w of
        (Some e, w1) \<Rightarrow> (Some e, w1)
      | (None, w1) \<Rightarrow> empty_cache_all ext rest w1)"

text \<open>\<^verbatim>\<open>range(n)\<close>.\<close>

definition range_py :: "int \<Rightarrow> int list" where
  "range_py n = map int [0..<nat n]"

definition clear_all_caches :: "externals \<Rightarrow> world \<Rightarrow> world" where
  "clear_all_caches ext w =
     (case (if cuda_is_available w then empty_cache_all ext (range_py (cuda_device_count w)) w
            else (None, w)) of
        (Some e, w1) \<Rightarrow> w1
      | (None, w1) \<Rightarrow>
          (case (case cleanup_models ext of Some f \<Rightarrow> f w1 | None \<Rightarrow> (None, w1)) of
             (Some e, w2) \<Rightarrow> w2
           | (None, w2) \<Rightarrow> snd (gc_collect ext w2)))"

subsection \<open>The node ReservedMemorySetter\<close>

text \<open>
  \<^verbatim>\<open>get_detailed_info\<close>: of the dictionary it returns, the keys \<^verbatim>\<open>available\<close> and
  \<^verbatim>\<open>memory\<close>. The name, temperature and utilisation queries catch their own exceptions
  and only feed the log line, so they are left out.
\<close>

record gpu_info =
  available :: bool
  memory :: "snapshot option"

definition get_detailed_info :: "world \<Rightarrow> int \<Rightarrow> gpu_info" where
  "get_detailed_info w gpu_index =
     (let info = \<lparr>available = False, memory = None\<rparr> in
      if \<not> validate_gpu_index w gpu_index then info
      else info\<lparr>available := True, memory := get_gpu_memory_info w gpu_index\<rparr>)"

text \<open>
  \<^verbatim>\<open>_show_gpu_info\<close> only logs, but its \<^verbatim>\<open>used_gb / total_gb\<close> raises on a device that
  reports a total of zero.
\<close>

definition show_gpu_info :: "world \<Rightarrow> int \<Rightarrow> error + unit" where
  "show_gpu_info w gpu_index =
     (let info = get_detailed_info w gpu_index in
      if \<not> available info then Inr ()
      else (case memory info of
              None \<Rightarrow> Inr ()
            | Some (total_gb, used_gb, free_gb) \<Rightarrow>
                (case truediv used_gb total_gb of
                   Inl e \<Rightarrow> Inl e
                 | Inr usage \<Rightarrow> Inr ())))"

text \<open>
  \<^verbatim>\<open>set_memory\<close> returns the tuple \<^verbatim>\<open>(anything,)\<close>; the model returns \<open>anything\<close> and the
  state it leaves behind. The body of the \<^verbatim>\<open>try\<close> is \<open>set_memory_try\<close>.
\<close>

definition set_memory_try ::
  "externals \<Rightarrow> rat \<Rightarrow> string \<Rightarrow> int \<Rightarrow> rat \<Rightarrow> bool \<Rightarrow> bool \<Rightarrow> world \<Rightarrow> error option \<times> world" where
  "set_memory_try ext reserved mode gpu_index min_safe_reserve clear_memory show_gpu_info_flag w =
     (let gpu_index = (if \<not> validate_gpu_index w gpu_index then 0 else gpu_index) in
      case (if show_gpu_info_flag then show_gpu_info w gpu_index else Inr ()) of
        Inl e \<Rightarrow> (Some e, w)
      | Inr u \<Rightarrow>
          (let w1 = (if clear_memory then snd (clear_gpu_memory ext w gpu_index) else w) in
           case calculate_reserved_memory reserved mode gpu_index min_safe_reserve w1 of
             Inl e \<Rightarrow> (Some e, w1)
           | Inr (reserved_bytes, detail) \<Rightarrow>
               (None, w1\<lparr>EXTRA_RESERVED_MEMORY := reserved_bytes\<rparr>)))"

definition set_memory ::
  "externals \<Rightarrow> 'a \<Rightarrow> rat \<Rightarrow> string \<Rightarrow> int \<Rightarrow> rat \<Rightarrow> bool \<Rightarrow> bool \<Rightarrow> world \<Rightarrow> 'a \<times> world" where
  "set_memory ext anything reserved mode gpu_index min_safe_reserve clear_memory show_gpu_info_flag w =
     (case set_memory_try ext reserved mode gpu_index min_safe_reserve clear_memory
             show_gpu_info_flag w of
        (None, w1) \<Rightarrow> (anything, w1)
      | (Some e, w1) \<Rightarrow>
          (let safe_default = max DEFAULT_RESERVED_GB min_safe_reserve in
           (anything,
            w1\<lparr>EXTRA_RESERVED_MEMORY := int_trunc (safe_default * of_int GB_TO_BYTES)\<rparr>)))"

subsection \<open>The node BatchMemoryCleaner\<close>

text \<open>
  The lines of the report: the header, one device's freed memory, the total, the
  freed memory of the single-device path, the note of the deep clean, the closing line.
\<close>

datatype report_line =
    Header
  | Gpu_freed int rat
  | Total_freed rat
  | Freed rat
  | Deep_clean
  | Done

text \<open>The loop of \<^verbatim>\<open>clean\<close> over all devices.\<close>

fun clear_each ::
  "externals \<Rightarrow> int list \<Rightarrow> world \<Rightarrow> rat \<Rightarrow> report_line list \<Rightarrow> world \<times> rat \<times> report_line list" where
  "clear_each ext [] w total_freed report_lines = (w, total_freed, report_lines)"
| "clear_each ext (i # rest) w total_freed report_lines =
     (let (result, w1) = clear_gpu_memory ext w i in
      if success result then
        (let freed = freed_memory_gb result in
         clear_each ext rest w1 (total_freed + freed) (report_lines @ [Gpu_freed i freed]))
      else clear_each ext rest w1 total_freed report_lines)"

text \<open>
  \<^verbatim>\<open>clean\<close> returns \<^verbatim>\<open>(anything, report)\<close>. No statement inside its \<^verbatim>\<open>try\<close> raises in
  this model (\<^verbatim>\<open>clear_gpu_memory\<close> and \<^verbatim>\<open>clear_all_caches\<close> catch their own exceptions),
  so the handler, which only appends a line to the report, has no branch here.
\<close>

definition clean ::
  "externals \<Rightarrow> 'a \<Rightarrow> bool \<Rightarrow> bool \<Rightarrow> world \<Rightarrow> ('a \<times> report_line list) \<times> world" where
  "clean ext anything clear_all_gpus aggressive w =
     (let report_lines = [Header];
          (w1, report_lines) =
            (if clear_all_gpus then
               (let gpu_count = (if cuda_is_available w then cuda_device_count w else 0);
                    (w1, total_freed, report_lines) =
                       clear_each ext (range_py gpu_count) w 0 report_lines
                in (w1, report_lines @ [Total_freed total_freed]))
             else
               (let (result, w1) = clear_gpu_memory ext w 0 in
                (w1, if success result
                     then report_lines @ [Freed (freed_memory_gb result)]
                     else report_lines)));
          (w2, report_lines) =
            (if aggressive then (clear_all_caches ext w1, report_lines @ [Deep_clean])
             else (w1, report_lines));
          report_lines = report_lines @ [Done]
      in ((anything, report_lines), w2))"

text \<open>The byte count of a result of the calculator, \<open>None\<close> when it raised.\<close>

definition bytes_of :: "error + (int \<times> 'd) \<Rightarrow> int option" where
  "bytes_of res = (case res of Inl e \<Rightarrow> None | Inr out \<Rightarrow> Some (fst out))"

subsection \<open>The calculator on floats with NaN and the infinities\<close>

text \<open>
  A Python float is a finite value, one of the two infinities, or NaN. Finite values
  are still exact rationals: there is no rounding, no overflow and no signed zero.
  The operations are the ones the calculator uses, with the results IEEE 754 and
  Python give on the special values.
\<close>

datatype pyfloat = Fin rat | PosInf | NegInf | NaN

text \<open>\<^verbatim>\<open>a + b\<close>.\<close>

fun add_fl :: "pyfloat \<Rightarrow> pyfloat \<Rightarrow> pyfloat" where
  "add_fl (Fin a) (Fin b) = Fin (a + b)"
| "add_fl NaN b = NaN"
| "add_fl a NaN = NaN"
| "add_fl PosInf NegInf = NaN"
| "add_fl NegInf PosInf = NaN"
| "add_fl PosInf b = PosInf"
| "add_fl NegInf b = NegInf"
| "add_fl (Fin a) b = b"

text \<open>\<^verbatim>\<open>a * b\<close>: an infinity times zero is NaN, otherwise the signs multiply.\<close>

definition signed_inf :: "bool \<Rightarrow> pyfloat" where
  "signed_inf positive = (if positive then PosInf else NegInf)"

fun mul_fl :: "pyfloat \<Rightarrow> pyfloat \<Rightarrow> pyfloat" where
  "mul_fl (Fin a) (Fin b) = Fin (a * b)"
| "mul_fl NaN b = NaN"
| "mul_fl a NaN = NaN"
| "mul_fl (Fin a) PosInf = (if a = 0 then NaN else signed_inf (0 < a))"
| "mul_fl (Fin a) NegInf = (if a = 0 then NaN else signed_inf (a < 0))"
| "mul_fl PosInf (Fin b) = (if b = 0 then NaN else signed_inf (0 < b))"
| "mul_fl NegInf (Fin b) = (if b = 0 then NaN else signed_inf (b < 0))"
| "mul_fl PosInf PosInf = PosInf"
| "mul_fl PosInf NegInf = NegInf"
| "mul_fl NegInf PosInf = NegInf"
| "mul_fl NegInf NegInf = PosInf"

text \<open>
  \<^verbatim>\<open>a / b\<close>: a divisor of zero raises whatever the dividend is; an infinity divided by
  an infinity is NaN; a finite value divided by an infinity is zero.
\<close>

fun truediv_fl :: "pyfloat \<Rightarrow> pyfloat \<Rightarrow> error + pyfloat" where
  "truediv_fl a (Fin b) =
     (if b = 0 then Inl ZeroDivisionError
      else (case a of
              Fin x \<Rightarrow> Inr (Fin (x / b))
            | PosInf \<Rightarrow> Inr (signed_inf (0 < b))
            | NegInf \<Rightarrow> Inr (signed_inf (b < 0))
            | NaN \<Rightarrow> Inr NaN))"
| "truediv_fl a NaN = Inr NaN"
| "truediv_fl NaN b = Inr NaN"
| "truediv_fl (Fin x) b = Inr (Fin 0)"
| "truediv_fl a b = Inr NaN"

text \<open>\<^verbatim>\<open>a < b\<close>: false as soon as one side is NaN.\<close>

fun less_fl :: "pyfloat \<Rightarrow> pyfloat \<Rightarrow> bool" where
  "less_fl (Fin a) (Fin b) = (a < b)"
| "less_fl NaN b = False"
| "less_fl a NaN = False"
| "less_fl PosInf b = False"
| "less_fl a NegInf = False"
| "less_fl a b = True"

text \<open>\<^verbatim>\<open>a != b\<close>: NaN differs from everything, itself included.\<close>

definition ne_fl :: "pyfloat \<Rightarrow> pyfloat \<Rightarrow> bool" where
  "ne_fl a b = (a = NaN \<or> b = NaN \<or> a \<noteq> b)"

text \<open>
  The builtins \<^verbatim>\<open>max(a, b)\<close> and \<^verbatim>\<open>min(a, b)\<close> keep the first argument unless the
  second is greater, respectively smaller.
\<close>

definition max_fl :: "pyfloat \<Rightarrow> pyfloat \<Rightarrow> pyfloat" where
  "max_fl a b = (if less_fl a b then b else a)"

definition min_fl :: "pyfloat \<Rightarrow> pyfloat \<Rightarrow> pyfloat" where
  "min_fl a b = (if less_fl b a then b else a)"

text \<open>\<^verbatim>\<open>int(x)\<close> raises on NaN and on an infinity.\<close>

fun int_fl :: "pyfloat \<Rightarrow> error + int" where
  "int_fl (Fin x) = Inr (int_trunc x)"
| "int_fl NaN = Inl ValueError"
| "int_fl PosInf = Inl OverflowError"
| "int_fl NegInf = Inl OverflowError"

text \<open>\<^verbatim>\<open>return int(value * GB_TO_BYTES), detail\<close>.\<close>

definition return_bytes :: "pyfloat \<Rightarrow> 'd \<Rightarrow> error + (int \<times> 'd)" where
  "return_bytes v detail =
     (case int_fl (mul_fl v (Fin (of_int GB_TO_BYTES))) of
        Inl e \<Rightarrow> Inl e
      | Inr reserved_bytes \<Rightarrow> Inr (reserved_bytes, detail))"

type_synonym snapshot_fl = "pyfloat \<times> pyfloat \<times> pyfloat"

definition manual_mode_fl ::
  "pyfloat \<Rightarrow> pyfloat \<Rightarrow> snapshot_fl option \<Rightarrow> error + (int \<times> pyfloat detail)" where
  "manual_mode_fl reserved min_safe_reserve memory_info =
     (let manual_reserved = max_fl reserved min_safe_reserve in
      case memory_info of
        Some (total_gb, used_gb, free_gb) \<Rightarrow>
          (let max_allowed = mul_fl total_gb (Fin MAX_RESERVED_RATIO) in
           if less_fl max_allowed manual_reserved then
             (let safe_reserved = max_allowed in
              return_bytes safe_reserved (Manual_limited reserved safe_reserved))
           else
             return_bytes manual_reserved (Manual_info manual_reserved total_gb used_gb))
      | None \<Rightarrow> return_bytes manual_reserved (Manual_no_gpu manual_reserved))"

definition auto_mode_fl ::
  "pyfloat \<Rightarrow> pyfloat \<Rightarrow> snapshot_fl option \<Rightarrow> error + (int \<times> pyfloat detail)" where
  "auto_mode_fl reserved min_safe_reserve memory_info =
     (case memory_info of
        None \<Rightarrow> manual_mode_fl reserved min_safe_reserve None
      | Some (total_gb, used_gb, free_gb) \<Rightarrow>
          (let auto_reserved = add_fl used_gb reserved;
               auto_reserved = max_fl auto_reserved min_safe_reserve;
               max_allowed = mul_fl total_gb (Fin (85 / 100));
               safe_reserved = min_fl auto_reserved max_allowed;
               detail = (if ne_fl auto_reserved safe_reserved
                         then Auto_limited auto_reserved safe_reserved used_gb reserved
                         else Auto_info safe_reserved used_gb reserved)
           in return_bytes safe_reserved detail))"

definition smart_mode_fl ::
  "pyfloat \<Rightarrow> pyfloat \<Rightarrow> snapshot_fl option \<Rightarrow> error + (int \<times> pyfloat detail)" where
  "smart_mode_fl reserved min_safe_reserve memory_info =
     (case memory_info of
        None \<Rightarrow>
          (let default_value = max_fl (add_fl reserved (Fin 1)) min_safe_reserve in
           return_bytes default_value (Smart_no_gpu default_value))
      | Some (total_gb, used_gb, free_gb) \<Rightarrow>
          (case truediv_fl free_gb total_gb of
             Inl e \<Rightarrow> Inl e
           | Inr available_ratio \<Rightarrow>
               (let base_reserved = add_fl used_gb reserved in
                case
                  (if less_fl available_ratio (Fin (2 / 10)) then
                     (case getitem MEMORY_STRATEGY ''tight'' of
                        Inl e \<Rightarrow> Inl e
                      | Inr strategy_ratio \<Rightarrow>
                          Inr (max_fl base_reserved (mul_fl total_gb (Fin strategy_ratio)), Tight))
                   else if less_fl available_ratio (Fin (4 / 10)) then
                     (case getitem MEMORY_STRATEGY ''medium'' of
                        Inl e \<Rightarrow> Inl e
                      | Inr strategy_ratio \<Rightarrow> Inr (base_reserved, Medium))
                   else
                     (case getitem MEMORY_STRATEGY ''loose'' of
                        Inl e \<Rightarrow> Inl e
                      | Inr strategy_ratio \<Rightarrow>
                          Inr (max_fl base_reserved min_safe_reserve, Loose)))
                of
                  Inl e \<Rightarrow> Inl e
                | Inr (smart_reserved, status) \<Rightarrow>
                    (let smart_reserved = max_fl smart_reserved min_safe_reserve;
                         max_allowed = mul_fl total_gb (Fin MAX_RESERVED_RATIO);
                         safe_reserved = min_fl smart_reserved max_allowed;
                         adjust = (if ne_fl smart_reserved safe_reserved
                                   then Some (smart_reserved, safe_reserved) else None)
                     in return_bytes safe_reserved
                          (Smart_info safe_reserved status free_gb total_gb
                             (mul_fl available_ratio (Fin 100)) adjust)))))"

text \<open>
  The dispatcher. Its parameter \<^verbatim>\<open>gpu_manager\<close> is used for one call,
  \<^verbatim>\<open>gpu_manager.get_gpu_memory_info(gpu_index)\<close>, so the manager is the function that
  answers this call: any object with that method can be passed, and so can a snapshot
  with any float in it.
\<close>

definition calculate_reserved_memory_fl ::
  "pyfloat \<Rightarrow> string \<Rightarrow> int \<Rightarrow> pyfloat \<Rightarrow> (int \<Rightarrow> snapshot_fl option)
     \<Rightarrow> error + (int \<times> pyfloat detail)" where
  "calculate_reserved_memory_fl reserved mode gpu_index min_safe_reserve gpu_manager =
     (let memory_info = gpu_manager gpu_index in
      if mode = ''manual'' then manual_mode_fl reserved min_safe_reserve memory_info
      else if mode = ''auto'' then auto_mode_fl reserved min_safe_reserve memory_info
      else if mode = ''smart'' then smart_mode_fl reserved min_safe_reserve memory_info
      else return_bytes (max_fl reserved min_safe_reserve) Default_mode)"

text \<open>
  The magnitudes up to which Python's own arithmetic on the values of a request and of
  a snapshot cannot overflow: \<open>2^64\<close> gigabytes.
\<close>

definition in_range :: "rat \<Rightarrow> bool" where
  "in_range x = (\<bar>x\<bar> \<le> 2 ^ 64)"

subsection \<open>The sizing rules as the specification words them\<close>

text \<open>
  Smart mode with a snapshot, after the specification: the ratio of free to total
  memory selects one of three bands, the value of the band is raised to the safety
  floor and then capped at 90 percent of the total.
\<close>

definition smart_value_spec :: "rat \<Rightarrow> rat \<Rightarrow> rat \<Rightarrow> rat \<Rightarrow> rat \<Rightarrow> rat" where
  "smart_value_spec target_gb min_safe_gb total_gb used_gb free_gb =
     (let available_ratio = free_gb / total_gb;
          v = (if available_ratio < 20 / 100 then max (used_gb + target_gb) (total_gb * (80 / 100))
               else if available_ratio < 40 / 100 then used_gb + target_gb
               else max (used_gb + target_gb) min_safe_gb)
      in min (max v min_safe_gb) (total_gb * (9 / 10)))"

text \<open>Auto mode with a snapshot, after the specification.\<close>

definition auto_value_spec :: "rat \<Rightarrow> rat \<Rightarrow> rat \<Rightarrow> rat \<Rightarrow> rat" where
  "auto_value_spec target_gb min_safe_gb total_gb used_gb =
     min (max (used_gb + target_gb) min_safe_gb) (total_gb * (85 / 100))"

text \<open>
  The ceiling a mode applies to a device of the given total: 85 percent in auto mode,
  90 percent in manual and smart mode.
\<close>

definition mode_ceiling :: "string \<Rightarrow> rat \<Rightarrow> rat" where
  "mode_ceiling mode total_gb =
     (if mode = ''auto'' then total_gb * (85 / 100) else total_gb * (9 / 10))"

subsection \<open>Devices used as examples\<close>

text \<open>
  A machine with pynvml and one device, index 0, that reports the given byte counts,
  and a machine on which pynvml could not be initialised.
\<close>

definition one_device :: "int \<Rightarrow> int \<Rightarrow> int \<Rightarrow> world" where
  "one_device total_bytes used_bytes free_bytes =
     \<lparr>pynvml_available = True, nvmlDeviceGetCount = Some 1,
      nvmlDeviceGetMemoryInfo =
        (\<lambda>i. if i = 0 then Some (total_bytes, used_bytes, free_bytes) else None),
      cuda_is_available = True, cuda_device_count = 1, EXTRA_RESERVED_MEMORY = 0\<rparr>"

definition no_telemetry :: world where
  "no_telemetry =
     \<lparr>pynvml_available = False, nvmlDeviceGetCount = None,
      nvmlDeviceGetMemoryInfo = (\<lambda>i. None),
      cuda_is_available = True, cuda_device_count = 1, EXTRA_RESERVED_MEMORY = 0\<rparr>"

text \<open>
  Collaborators that never raise: \<open>quiet_externals\<close> leaves the device as it is,
  \<open>busy_externals\<close> describes a run during which another process allocates, so that the
  device reports 22 GiB in use after the cache was released, \<open>blind_externals\<close> one
  after which the memory query fails. With \<open>failing_externals\<close> the release of the
  cache raises.
\<close>

definition quiet_externals :: externals where
  "quiet_externals =
     \<lparr>empty_cache = (\<lambda>w. (None, w)), empty_cache_on = (\<lambda>i w. (None, w)),
      gc_collect = (\<lambda>w. (0, w)), cleanup_models = None\<rparr>"

definition busy_externals :: externals where
  "busy_externals =
     \<lparr>empty_cache = (\<lambda>w. (None, w\<lparr>nvmlDeviceGetMemoryInfo :=
          (\<lambda>i. if i = 0 then Some (24 * GB_TO_BYTES, 22 * GB_TO_BYTES, 2 * GB_TO_BYTES)
                else None)\<rparr>)),
      empty_cache_on = (\<lambda>i w. (None, w)),
      gc_collect = (\<lambda>w. (0, w)), cleanup_models = None\<rparr>"

definition blind_externals :: externals where
  "blind_externals =
     \<lparr>empty_cache = (\<lambda>w. (None, w\<lparr>nvmlDeviceGetMemoryInfo := (\<lambda>i. None)\<rparr>)),
      empty_cache_on = (\<lambda>i w. (None, w)),
      gc_collect = (\<lambda>w. (0, w)), cleanup_models = None\<rparr>"

definition failing_externals :: externals where
  "failing_externals =
     \<lparr>empty_cache = (\<lambda>w. (Some RuntimeError, w)), empty_cache_on = (\<lambda>i w. (None, w)),
      gc_collect = (\<lambda>w. (0, w)), cleanup_models = None\<rparr>"

text \<open>A manager that answers every index with the same snapshot, or with none.\<close>

definition fixed_manager :: "snapshot_fl option \<Rightarrow> int \<Rightarrow> snapshot_fl option" where
  "fixed_manager memory_info gpu_index = memory_info"

section \<open>Properties\<close>

subsection \<open>Truncation to whole bytes\<close>

lemma int_trunc_mono: "x \<le> y \<Longrightarrow> int_trunc x \<le> int_trunc y"
proof -
  assume xy: "x \<le> y"
  show ?thesis
  proof (cases "y < 0")
    case True
    with xy have "x < 0" by simp
    with True xy show ?thesis by (simp add: int_trunc_def ceiling_mono)
  next
    case False
    show ?thesis
    proof (cases "x < 0")
      case True
      then have "\<lceil>x\<rceil> \<le> 0" by simp
      moreover from False have "0 \<le> \<lfloor>y\<rfloor>" by simp
      ultimately have "\<lceil>x\<rceil> \<le> \<lfloor>y\<rfloor>" by linarith
      with True False show ?thesis by (simp add: int_trunc_def)
    next
      case F2: False
      with False xy show ?thesis by (simp add: int_trunc_def floor_mono)
    qed
  qed
qed

lemma int_trunc_le: "0 \<le> x \<Longrightarrow> of_int (int_trunc x) \<le> x"
  by (simp add: int_trunc_def)

lemma int_trunc_nonneg: "0 \<le> x \<Longrightarrow> 0 \<le> int_trunc x"
  by (simp add: int_trunc_def)

lemma int_trunc_of_int: "int_trunc (of_int z) = z"
  by (simp add: int_trunc_def)

lemma gb_pos: "(0::rat) < of_int GB_TO_BYTES"
  by (simp add: GB_TO_BYTES_def)

lemma scale_mono: "x \<le> y \<Longrightarrow> x * of_int GB_TO_BYTES \<le> y * (of_int GB_TO_BYTES :: rat)"
  using gb_pos by (simp add: mult_right_mono)

lemma bytes_mono:
  "x \<le> y \<Longrightarrow> int_trunc (x * of_int GB_TO_BYTES) \<le> int_trunc (y * of_int GB_TO_BYTES)"
  by (rule int_trunc_mono) (rule scale_mono)

lemma bytes_le: "0 \<le> x \<Longrightarrow> of_int (int_trunc (x * of_int GB_TO_BYTES)) \<le> x * of_int GB_TO_BYTES"
  using gb_pos by (intro int_trunc_le) simp

lemma bytes_nonneg: "0 \<le> x \<Longrightarrow> 0 \<le> int_trunc (x * of_int GB_TO_BYTES)"
  using gb_pos by (intro int_trunc_nonneg) simp

subsection \<open>What each mode returns\<close>

lemma strategy_lookup:
  "getitem MEMORY_STRATEGY ''tight'' = Inr (8 / 10)"
  "getitem MEMORY_STRATEGY ''medium'' = Inr (85 / 100)"
  "getitem MEMORY_STRATEGY ''loose'' = Inr (9 / 10)"
  by (simp_all add: getitem_def MEMORY_STRATEGY_def)

lemma manual_mode_bytes:
  "fst (manual_mode r m None) = int_trunc (max r m * of_int GB_TO_BYTES)"
  "fst (manual_mode r m (Some (t, u, f))) =
     int_trunc (min (max r m) (t * (9 / 10)) * of_int GB_TO_BYTES)"
  by (simp_all add: manual_mode_def MAX_RESERVED_RATIO_def Let_def min_def)

lemma auto_mode_bytes:
  "fst (auto_mode r m None) = int_trunc (max r m * of_int GB_TO_BYTES)"
  "fst (auto_mode r m (Some (t, u, f))) =
     int_trunc (min (max (u + r) m) (t * (85 / 100)) * of_int GB_TO_BYTES)"
  by (simp_all add: auto_mode_def manual_mode_def Let_def)

lemma smart_mode_None:
  "smart_mode r m None =
     Inr (int_trunc (max (r + 1) m * of_int GB_TO_BYTES), Smart_no_gpu (max (r + 1) m))"
  by (simp add: smart_mode_def Let_def)

lemma smart_mode_zero: "smart_mode r m (Some (0, u, f)) = Inl ZeroDivisionError"
  by (simp add: smart_mode_def truediv_def)

lemma smart_mode_Some:
  "t \<noteq> 0 \<Longrightarrow> \<exists>d. smart_mode r m (Some (t, u, f)) =
      Inr (int_trunc (smart_value_spec r m t u f * of_int GB_TO_BYTES), d)"
  by (simp add: smart_mode_def truediv_def strategy_lookup smart_value_spec_def
      MAX_RESERVED_RATIO_def Let_def)

lemma smart_value_bounds:
  "smart_value_spec r m t u f \<le> t * (9 / 10)"
  "m \<le> t * (9 / 10) \<Longrightarrow> m \<le> smart_value_spec r m t u f"
  by (simp_all add: smart_value_spec_def Let_def)


lemma calc_manual:
  "calculate_reserved_memory r ''manual'' i m w = Inr (manual_mode r m (get_gpu_memory_info w i))"
  by (simp add: calculate_reserved_memory_def)

lemma calc_auto:
  "calculate_reserved_memory r ''auto'' i m w = Inr (auto_mode r m (get_gpu_memory_info w i))"
  by (simp add: calculate_reserved_memory_def)

lemma calc_smart:
  "calculate_reserved_memory r ''smart'' i m w = smart_mode r m (get_gpu_memory_info w i)"
  by (simp add: calculate_reserved_memory_def)

lemma calc_unknown:
  "mode \<notin> {''manual'', ''auto'', ''smart''} \<Longrightarrow>
   calculate_reserved_memory r mode i m w =
     Inr (int_trunc (max r m * of_int GB_TO_BYTES), Default_mode)"
  by (simp add: calculate_reserved_memory_def)

lemma one_device_info:
  "get_gpu_memory_info (one_device a b c) 0 =
     Some (of_int a / of_int GB_TO_BYTES, of_int b / of_int GB_TO_BYTES, of_int c / of_int GB_TO_BYTES)"
  by (simp add: get_gpu_memory_info_def validate_gpu_index_def get_gpu_count_def one_device_def)

lemma no_telemetry_info: "get_gpu_memory_info no_telemetry i = None"
  by (simp add: get_gpu_memory_info_def no_telemetry_def)

lemma gb_value: "rat_of_int GB_TO_BYTES = 1073741824"
  by (simp add: GB_TO_BYTES_def)

subsection \<open>The safety floor\<close>

text \<open>
  C1, as amended. The calculator returns a byte count that is at least
  \<open>min_safe_reserve * 2^30\<close>, truncated to whole bytes, whenever no snapshot is present,
  or the mode is not one of the three known ones, or the ceiling the mode applies to
  the device (90 percent of the total, 85 percent in auto mode) is not below
  \<open>min_safe_reserve\<close>; in smart mode the total must not be zero, where the division
  raises. When \<open>min_safe_reserve * 2^30\<close> is a whole number the byte count is at least
  that number. Nothing is needed of the sign of the request.
\<close>

theorem floor_when_ceiling_allows:
  assumes "get_gpu_memory_info w gpu_index = None
           \<or> mode \<notin> {''manual'', ''auto'', ''smart''}
           \<or> (\<exists>t u f. get_gpu_memory_info w gpu_index = Some (t, u, f)
                 \<and> (mode = ''smart'' \<longrightarrow> t \<noteq> 0) \<and> m \<le> mode_ceiling mode t)"
  shows "\<exists>b d. calculate_reserved_memory r mode gpu_index m w = Inr (b, d)
           \<and> int_trunc (m * of_int GB_TO_BYTES) \<le> b
           \<and> (\<forall>k. m * of_int GB_TO_BYTES = of_int k \<longrightarrow> m * of_int GB_TO_BYTES \<le> of_int b)"
proof -
  have main: "\<exists>b d. calculate_reserved_memory r mode gpu_index m w = Inr (b, d)
           \<and> int_trunc (m * of_int GB_TO_BYTES) \<le> b"
  proof (cases "mode \<in> {''manual'', ''auto'', ''smart''}")
    case False
    then show ?thesis by (simp add: calc_unknown bytes_mono)
  next
    case known: True
    show ?thesis
    proof (cases "get_gpu_memory_info w gpu_index")
      case None
      from known consider "mode = ''manual''" | "mode = ''auto''" | "mode = ''smart''" by auto
      then show ?thesis
      proof cases
        case 1
        have "int_trunc (m * of_int GB_TO_BYTES) \<le> fst (manual_mode r m None)"
          by (simp add: manual_mode_bytes bytes_mono)
        with 1 None show ?thesis by (simp add: calc_manual) (metis prod.collapse)
      next
        case 2
        have "int_trunc (m * of_int GB_TO_BYTES) \<le> fst (auto_mode r m None)"
          by (simp add: auto_mode_bytes bytes_mono)
        with 2 None show ?thesis by (simp add: calc_auto) (metis prod.collapse)
      next
        case 3
        with None show ?thesis by (simp add: calc_smart smart_mode_None bytes_mono)
      qed
    next
      case (Some snap)
      obtain t u f where snap: "snap = (t, u, f)" by (cases snap) auto
      with Some known assms have ok: "mode = ''smart'' \<longrightarrow> t \<noteq> 0" and le: "m \<le> mode_ceiling mode t"
        by auto
      from known consider "mode = ''manual''" | "mode = ''auto''" | "mode = ''smart''" by auto
      then show ?thesis
      proof cases
        case 1
        with le have "m \<le> min (max r m) (t * (9 / 10))" by (simp add: mode_ceiling_def)
        then have "int_trunc (m * of_int GB_TO_BYTES) \<le> fst (manual_mode r m (Some (t, u, f)))"
          by (simp only: manual_mode_bytes bytes_mono)
        with 1 Some snap show ?thesis by (simp add: calc_manual) (metis prod.collapse)
      next
        case 2
        with le have "m \<le> min (max (u + r) m) (t * (85 / 100))" by (simp add: mode_ceiling_def)
        then have "int_trunc (m * of_int GB_TO_BYTES) \<le> fst (auto_mode r m (Some (t, u, f)))"
          by (simp only: auto_mode_bytes bytes_mono)
        with 2 Some snap show ?thesis by (simp add: calc_auto) (metis prod.collapse)
      next
        case 3
        with ok have t: "t \<noteq> 0" by simp
        from 3 le have "m \<le> smart_value_spec r m t u f"
          by (simp add: mode_ceiling_def smart_value_bounds)
        then have "int_trunc (m * of_int GB_TO_BYTES)
                     \<le> int_trunc (smart_value_spec r m t u f * of_int GB_TO_BYTES)"
          by (rule bytes_mono)
        with smart_mode_Some [OF t, of r m u f] 3 Some snap show ?thesis
          by (auto simp add: calc_smart)
      qed
    qed
  qed
  then obtain b d where res: "calculate_reserved_memory r mode gpu_index m w = Inr (b, d)"
    and le: "int_trunc (m * of_int GB_TO_BYTES) \<le> b" by blast
  have "m * of_int GB_TO_BYTES \<le> of_int b" if "m * of_int GB_TO_BYTES = of_int k" for k
  proof -
    from that le have "k \<le> b" by (simp add: int_trunc_of_int)
    with that show ?thesis by simp
  qed
  with res le show ?thesis by blast
qed

theorem floor_when_ceiling_allows_witness:
  "(\<exists>t u f. get_gpu_memory_info (one_device (24 * GB_TO_BYTES) (20 * GB_TO_BYTES) (4 * GB_TO_BYTES)) 0
               = Some (t, u, f) \<and> t \<noteq> 0 \<and> 2 \<le> mode_ceiling ''smart'' t)
   \<and> (\<exists>b d. calculate_reserved_memory 1 ''smart'' 0 2
               (one_device (24 * GB_TO_BYTES) (20 * GB_TO_BYTES) (4 * GB_TO_BYTES)) = Inr (b, d)
         \<and> 2 * rat_of_int GB_TO_BYTES \<le> of_int b)"
proof -
  let ?w = "one_device (24 * GB_TO_BYTES) (20 * GB_TO_BYTES) (4 * GB_TO_BYTES)"
  have h: "\<exists>t u f. get_gpu_memory_info ?w 0 = Some (t, u, f)
             \<and> (''smart'' = ''smart'' \<longrightarrow> t \<noteq> 0) \<and> 2 \<le> mode_ceiling ''smart'' t"
    by (simp add: one_device_info mode_ceiling_def gb_value)
  have k: "2 * rat_of_int GB_TO_BYTES = of_int (2 * GB_TO_BYTES)" by simp
  from h floor_when_ceiling_allows [of ?w 0 "''smart''" 2 1] k show ?thesis
    by (metis (no_types, lifting))
qed

text \<open>
  C1 as stated fails where the ceiling is below the floor: on a device of 2 GiB, manual
  mode with a target of 1 GB and a floor of 2 GB returns 90 percent of the total,
  1932735283 bytes, less than \<open>2 * 2^30\<close>.
\<close>

theorem floor_counterexample:
  "calculate_reserved_memory 1 ''manual'' 0 2 (one_device (2 * GB_TO_BYTES) GB_TO_BYTES GB_TO_BYTES)
     = Inr (1932735283, Manual_limited 1 (9 / 5))
   \<and> \<not> (2 * rat_of_int GB_TO_BYTES \<le> of_int 1932735283)"
  by (simp add: calc_manual one_device_info manual_mode_def MAX_RESERVED_RATIO_def int_trunc_def
      gb_value floor_eq_iff)


subsection \<open>Unrecognised modes\<close>

text \<open>
  C2 as stated fails on a device of 24 GiB with a target of 32 GB: the mode
  \<open>''turbo''\<close> returns 32 GiB and manual mode returns 90 percent of the total.
\<close>

theorem unknown_mode_counterexample:
  "bytes_of (calculate_reserved_memory 32 ''turbo'' 0 2
       (one_device (24 * GB_TO_BYTES) (20 * GB_TO_BYTES) (4 * GB_TO_BYTES))) = Some 34359738368
   \<and> bytes_of (calculate_reserved_memory 32 ''manual'' 0 2
       (one_device (24 * GB_TO_BYTES) (20 * GB_TO_BYTES) (4 * GB_TO_BYTES))) = Some 23192823398"
  by (simp add: bytes_of_def calculate_reserved_memory_def one_device_info manual_mode_def
      MAX_RESERVED_RATIO_def int_trunc_def gb_value floor_eq_iff)

text \<open>
  C2, as amended. A mode string other than \<open>''manual''\<close>, \<open>''auto''\<close>, \<open>''smart''\<close> never
  raises and returns \<open>int (max reserved min_safe_reserve * 2^30)\<close> whatever the
  snapshot, with the fixed explanation of the default branch, which carries no warning.
  That byte count is the one of manual mode without a snapshot; it is the one manual
  mode returns on the same inputs when no snapshot is present or when
  \<open>max reserved min_safe_reserve\<close> is within 90 percent of the total.
\<close>

theorem unknown_mode_default:
  assumes "mode \<notin> {''manual'', ''auto'', ''smart''}"
  shows "calculate_reserved_memory r mode gpu_index m w =
           Inr (int_trunc (max r m * of_int GB_TO_BYTES), Default_mode)
         \<and> bytes_of (calculate_reserved_memory r mode gpu_index m w) =
             Some (fst (manual_mode r m None))
         \<and> (get_gpu_memory_info w gpu_index = None
              \<or> (\<exists>t u f. get_gpu_memory_info w gpu_index = Some (t, u, f)
                    \<and> max r m \<le> t * MAX_RESERVED_RATIO)
            \<longrightarrow> bytes_of (calculate_reserved_memory r mode gpu_index m w) =
                  bytes_of (calculate_reserved_memory r ''manual'' gpu_index m w))"
proof -
  have a: "calculate_reserved_memory r mode gpu_index m w =
           Inr (int_trunc (max r m * of_int GB_TO_BYTES), Default_mode)"
    using assms by (rule calc_unknown)
  have b: "bytes_of (calculate_reserved_memory r mode gpu_index m w) =
             Some (fst (manual_mode r m None))"
    by (simp add: a bytes_of_def manual_mode_bytes)
  have c: "bytes_of (calculate_reserved_memory r ''manual'' gpu_index m w) =
             Some (fst (manual_mode r m None))"
    if "get_gpu_memory_info w gpu_index = None
        \<or> (\<exists>t u f. get_gpu_memory_info w gpu_index = Some (t, u, f)
              \<and> max r m \<le> t * MAX_RESERVED_RATIO)"
    using that
    by (auto simp add: calc_manual bytes_of_def manual_mode_bytes MAX_RESERVED_RATIO_def)
  from a b c show ?thesis by simp
qed

theorem unknown_mode_default_witness:
  "''turbo'' \<notin> {''manual'', ''auto'', ''smart''}
   \<and> calculate_reserved_memory 1 ''turbo'' 0 2 no_telemetry = Inr (2147483648, Default_mode)
   \<and> bytes_of (calculate_reserved_memory 1 ''manual'' 0 2 no_telemetry) = Some 2147483648"
proof -
  have h: "''turbo'' \<notin> {''manual'', ''auto'', ''smart''}" by simp
  have v: "int_trunc (max 1 2 * of_int GB_TO_BYTES) = 2147483648"
    by (simp add: int_trunc_def gb_value)
  from unknown_mode_default [OF h, where r = 1 and m = 2 and gpu_index = 0 and w = no_telemetry] v h show ?thesis
    by (auto simp add: no_telemetry_info bytes_of_def)
qed

subsection \<open>Smart mode\<close>

text \<open>
  C3. With a snapshot whose total is positive, smart mode returns the bytes of the value
  the specification describes: the band chosen by \<open>free_gb / total_gb\<close> (below 0.20,
  below 0.40, otherwise), raised to \<open>min_safe_gb\<close> and capped at 90 percent of the
  total. For the snapshot (24, 20, 4) and a target of 1 GB the result is
  \<open>int (21 * 2^30)\<close>, for every floor up to 21 GB.
\<close>

theorem smart_mode_bands:
  "(get_gpu_memory_info w gpu_index = Some (total_gb, used_gb, free_gb) \<and> 0 < total_gb
      \<longrightarrow> bytes_of (calculate_reserved_memory target_gb ''smart'' gpu_index min_safe_gb w) =
            Some (int_trunc (smart_value_spec target_gb min_safe_gb total_gb used_gb free_gb
                               * of_int GB_TO_BYTES)))
   \<and> (min_safe_gb \<le> 21
      \<longrightarrow> bytes_of (smart_mode 1 min_safe_gb (Some (24, 20, 4))) =
            Some (int_trunc (21 * of_int GB_TO_BYTES)))"
proof -
  have a: "bytes_of (calculate_reserved_memory target_gb ''smart'' gpu_index min_safe_gb w) =
            Some (int_trunc (smart_value_spec target_gb min_safe_gb total_gb used_gb free_gb
                               * of_int GB_TO_BYTES))"
    if "get_gpu_memory_info w gpu_index = Some (total_gb, used_gb, free_gb)" and "0 < total_gb"
  proof -
    from that have "total_gb \<noteq> 0" by simp
    from smart_mode_Some [OF this, of target_gb min_safe_gb used_gb free_gb] that(1)
    show ?thesis by (auto simp add: calc_smart bytes_of_def)
  qed
  have b: "bytes_of (smart_mode 1 min_safe_gb (Some (24, 20, 4))) =
            Some (int_trunc (21 * of_int GB_TO_BYTES))" if "min_safe_gb \<le> 21"
  proof -
    have "smart_value_spec 1 min_safe_gb 24 20 4 = 21"
      using that by (simp add: smart_value_spec_def)
    with smart_mode_Some [of 24 1 min_safe_gb 20 4] show ?thesis
      by (auto simp add: bytes_of_def)
  qed
  from a b show ?thesis by blast
qed

theorem smart_mode_bands_witness:
  "get_gpu_memory_info (one_device (24 * GB_TO_BYTES) (20 * GB_TO_BYTES) (4 * GB_TO_BYTES)) 0
     = Some (24, 20, 4)
   \<and> bytes_of (calculate_reserved_memory 1 ''smart'' 0 2
        (one_device (24 * GB_TO_BYTES) (20 * GB_TO_BYTES) (4 * GB_TO_BYTES))) = Some 22548578304
   \<and> bytes_of (smart_mode 1 2 (Some (24, 20, 4))) = Some 22548578304"
proof -
  let ?w = "one_device (24 * GB_TO_BYTES) (20 * GB_TO_BYTES) (4 * GB_TO_BYTES)"
  have h: "get_gpu_memory_info ?w 0 = Some (24, 20, 4)"
    by (simp add: one_device_info gb_value)
  have v: "smart_value_spec 1 2 24 20 4 = 21" by (simp add: smart_value_spec_def)
  have t: "int_trunc (21 * of_int GB_TO_BYTES) = 22548578304"
    by (simp add: int_trunc_def gb_value)
  from smart_mode_bands [where w = ?w and gpu_index = 0 and total_gb = 24 and used_gb = 20
      and free_gb = 4 and target_gb = 1 and min_safe_gb = 2] h v t
  show ?thesis by simp
qed

subsection \<open>Auto mode\<close>

text \<open>
  C4. Auto mode with a snapshot returns the bytes of
  \<open>min (max (used_gb + target_gb) min_safe_gb) (total_gb * 0.85)\<close>; without a snapshot it
  returns what manual mode returns without a snapshot, bytes and explanation. For the
  snapshot (24, 10, 14), a target of 1 GB and a floor of 2 GB the result is
  \<open>int (11 * 2^30)\<close>.
\<close>

theorem auto_mode_value:
  "(get_gpu_memory_info w gpu_index = Some (total_gb, used_gb, free_gb)
      \<longrightarrow> bytes_of (calculate_reserved_memory target_gb ''auto'' gpu_index min_safe_gb w) =
            Some (int_trunc (auto_value_spec target_gb min_safe_gb total_gb used_gb
                               * of_int GB_TO_BYTES)))
   \<and> (get_gpu_memory_info w gpu_index = None
      \<longrightarrow> calculate_reserved_memory target_gb ''auto'' gpu_index min_safe_gb w =
            calculate_reserved_memory target_gb ''manual'' gpu_index min_safe_gb w)
   \<and> auto_mode target_gb min_safe_gb None = manual_mode target_gb min_safe_gb None
   \<and> fst (auto_mode 1 2 (Some (24, 10, 14))) = int_trunc (11 * of_int GB_TO_BYTES)"
proof -
  have a: "bytes_of (calculate_reserved_memory target_gb ''auto'' gpu_index min_safe_gb w) =
            Some (int_trunc (auto_value_spec target_gb min_safe_gb total_gb used_gb
                               * of_int GB_TO_BYTES))"
    if "get_gpu_memory_info w gpu_index = Some (total_gb, used_gb, free_gb)"
    using that by (simp add: calc_auto bytes_of_def auto_mode_bytes auto_value_spec_def)
  have b: "auto_mode target_gb min_safe_gb None = manual_mode target_gb min_safe_gb None"
    by (simp add: auto_mode_def)
  have c: "calculate_reserved_memory target_gb ''auto'' gpu_index min_safe_gb w =
            calculate_reserved_memory target_gb ''manual'' gpu_index min_safe_gb w"
    if "get_gpu_memory_info w gpu_index = None"
    using that by (simp add: calc_auto calc_manual b)
  have d: "fst (auto_mode 1 2 (Some (24, 10, 14))) = int_trunc (11 * of_int GB_TO_BYTES)"
    by (simp add: auto_mode_bytes)
  from a b c d show ?thesis by blast
qed

theorem auto_mode_value_witness:
  "get_gpu_memory_info (one_device (24 * GB_TO_BYTES) (10 * GB_TO_BYTES) (14 * GB_TO_BYTES)) 0
     = Some (24, 10, 14)
   \<and> bytes_of (calculate_reserved_memory 1 ''auto'' 0 2
        (one_device (24 * GB_TO_BYTES) (10 * GB_TO_BYTES) (14 * GB_TO_BYTES))) = Some 11811160064
   \<and> get_gpu_memory_info no_telemetry 0 = None
   \<and> calculate_reserved_memory 1 ''auto'' 0 2 no_telemetry = Inr (2147483648, Manual_no_gpu 2)"
proof -
  let ?w = "one_device (24 * GB_TO_BYTES) (10 * GB_TO_BYTES) (14 * GB_TO_BYTES)"
  have h: "get_gpu_memory_info ?w 0 = Some (24, 10, 14)"
    by (simp add: one_device_info gb_value)
  have v: "int_trunc (auto_value_spec 1 2 24 10 * of_int GB_TO_BYTES) = 11811160064"
    by (simp add: auto_value_spec_def int_trunc_def gb_value)
  have n: "get_gpu_memory_info no_telemetry 0 = None" by (rule no_telemetry_info)
  have m: "calculate_reserved_memory 1 ''manual'' 0 2 no_telemetry = Inr (2147483648, Manual_no_gpu 2)"
    by (simp add: calc_manual n manual_mode_def int_trunc_def gb_value)
  from auto_mode_value [where w = ?w and gpu_index = 0 and total_gb = 24 and used_gb = 10
      and free_gb = 14 and target_gb = 1 and min_safe_gb = 2] h v
  have one: "bytes_of (calculate_reserved_memory 1 ''auto'' 0 2 ?w) = Some 11811160064" by simp
  from auto_mode_value [where w = no_telemetry and gpu_index = 0 and target_gb = 1
      and min_safe_gb = 2] n m
  have two: "calculate_reserved_memory 1 ''auto'' 0 2 no_telemetry = Inr (2147483648, Manual_no_gpu 2)"
    by simp
  from h one n two show ?thesis by simp
qed

text \<open>
  C7. Without a snapshot, smart mode returns the bytes of
  \<open>max (target_gb + 1) min_safe_gb\<close> with the explanation that names the missing device
  information, and manual mode the bytes of \<open>max target_gb min_safe_gb\<close>. For a
  non-negative target that is not below the floor, the smart result is exactly
  \<open>2^30\<close> bytes above the manual one.
\<close>

theorem smart_mode_no_snapshot:
  "get_gpu_memory_info w gpu_index = None \<longrightarrow>
     calculate_reserved_memory target_gb ''smart'' gpu_index min_safe_gb w =
       Inr (int_trunc (max (target_gb + 1) min_safe_gb * of_int GB_TO_BYTES),
            Smart_no_gpu (max (target_gb + 1) min_safe_gb))
     \<and> calculate_reserved_memory target_gb ''manual'' gpu_index min_safe_gb w =
       Inr (int_trunc (max target_gb min_safe_gb * of_int GB_TO_BYTES),
            Manual_no_gpu (max target_gb min_safe_gb))
     \<and> (0 \<le> target_gb \<and> min_safe_gb \<le> target_gb \<longrightarrow>
          bytes_of (calculate_reserved_memory target_gb ''smart'' gpu_index min_safe_gb w) =
          map_option (\<lambda>b. b + GB_TO_BYTES)
            (bytes_of (calculate_reserved_memory target_gb ''manual'' gpu_index min_safe_gb w)))"
proof
  assume n: "get_gpu_memory_info w gpu_index = None"
  have s: "calculate_reserved_memory target_gb ''smart'' gpu_index min_safe_gb w =
       Inr (int_trunc (max (target_gb + 1) min_safe_gb * of_int GB_TO_BYTES),
            Smart_no_gpu (max (target_gb + 1) min_safe_gb))"
    by (simp add: calc_smart n smart_mode_None)
  have m: "calculate_reserved_memory target_gb ''manual'' gpu_index min_safe_gb w =
       Inr (int_trunc (max target_gb min_safe_gb * of_int GB_TO_BYTES),
            Manual_no_gpu (max target_gb min_safe_gb))"
    by (simp add: calc_manual n manual_mode_def Let_def)
  have p: "int_trunc (max (target_gb + 1) min_safe_gb * of_int GB_TO_BYTES) =
           int_trunc (max target_gb min_safe_gb * of_int GB_TO_BYTES) + GB_TO_BYTES"
    if "0 \<le> target_gb" and "min_safe_gb \<le> target_gb"
  proof -
    from that have e1: "max (target_gb + 1) min_safe_gb = target_gb + 1"
      and e2: "max target_gb min_safe_gb = target_gb" by simp_all
    have pos: "0 \<le> target_gb * of_int GB_TO_BYTES" using that(1) gb_pos by simp
    have "(target_gb + 1) * of_int GB_TO_BYTES = target_gb * of_int GB_TO_BYTES + of_int GB_TO_BYTES"
      by (simp add: algebra_simps)
    moreover have "0 \<le> target_gb * of_int GB_TO_BYTES + rat_of_int GB_TO_BYTES"
      using pos gb_pos by simp
    ultimately show ?thesis using pos by (simp add: e1 e2 int_trunc_def)
  qed
  from s m p show "calculate_reserved_memory target_gb ''smart'' gpu_index min_safe_gb w =
       Inr (int_trunc (max (target_gb + 1) min_safe_gb * of_int GB_TO_BYTES),
            Smart_no_gpu (max (target_gb + 1) min_safe_gb))
     \<and> calculate_reserved_memory target_gb ''manual'' gpu_index min_safe_gb w =
       Inr (int_trunc (max target_gb min_safe_gb * of_int GB_TO_BYTES),
            Manual_no_gpu (max target_gb min_safe_gb))
     \<and> (0 \<le> target_gb \<and> min_safe_gb \<le> target_gb \<longrightarrow>
          bytes_of (calculate_reserved_memory target_gb ''smart'' gpu_index min_safe_gb w) =
          map_option (\<lambda>b. b + GB_TO_BYTES)
            (bytes_of (calculate_reserved_memory target_gb ''manual'' gpu_index min_safe_gb w)))"
    by (simp add: bytes_of_def)
qed

theorem smart_mode_no_snapshot_witness:
  "get_gpu_memory_info no_telemetry 0 = None
   \<and> calculate_reserved_memory 3 ''smart'' 0 2 no_telemetry = Inr (4294967296, Smart_no_gpu 4)
   \<and> calculate_reserved_memory 3 ''manual'' 0 2 no_telemetry = Inr (3221225472, Manual_no_gpu 3)"
proof -
  have n: "get_gpu_memory_info no_telemetry 0 = None" by (rule no_telemetry_info)
  have v: "int_trunc (4 * of_int GB_TO_BYTES) = 4294967296"
    "int_trunc (3 * of_int GB_TO_BYTES) = 3221225472"
    by (simp_all add: int_trunc_def gb_value)
  from smart_mode_no_snapshot [where w = no_telemetry and gpu_index = 0 and target_gb = 3
      and min_safe_gb = 2] n v
  show ?thesis by simp
qed

subsection \<open>Snapshots with negative or non-finite fields\<close>

lemma less_fl_NaN [simp]: "less_fl a NaN = False"
  by (cases a) simp_all

lemma max_fl_Fin: "max_fl (Fin a) (Fin b) = Fin (max a b)"
  by (simp add: max_fl_def max_def)

lemma min_fl_Fin: "min_fl (Fin a) (Fin b) = Fin (min a b)"
  by (simp add: min_fl_def min_def)

lemma return_bytes_Fin:
  "return_bytes (Fin v) d = Inr (int_trunc (v * of_int GB_TO_BYTES), d)"
  by (simp add: return_bytes_def)

lemma return_bytes_NaN: "return_bytes NaN d = Inl ValueError"
  by (simp add: return_bytes_def)

text \<open>On finite values the float model computes the bytes of the rational model.\<close>

lemma manual_mode_fl_finite:
  "\<exists>d. manual_mode_fl (Fin r) (Fin m) None = Inr (int_trunc (max r m * of_int GB_TO_BYTES), d)"
  "\<exists>d. manual_mode_fl (Fin r) (Fin m) (Some (Fin t, Fin u, Fin f)) =
         Inr (int_trunc (min (max r m) (t * (9 / 10)) * of_int GB_TO_BYTES), d)"
  by (simp_all add: manual_mode_fl_def max_fl_Fin return_bytes_Fin MAX_RESERVED_RATIO_def
      Let_def min_def)

lemma auto_mode_fl_finite:
  "\<exists>d. auto_mode_fl (Fin r) (Fin m) None = Inr (int_trunc (max r m * of_int GB_TO_BYTES), d)"
  "\<exists>d. auto_mode_fl (Fin r) (Fin m) (Some (Fin t, Fin u, Fin f)) =
         Inr (int_trunc (min (max (u + r) m) (t * (85 / 100)) * of_int GB_TO_BYTES), d)"
  using manual_mode_fl_finite(1) [of r m]
  by (simp_all add: auto_mode_fl_def max_fl_Fin min_fl_Fin return_bytes_Fin Let_def)

lemma smart_mode_fl_finite:
  "\<exists>d. smart_mode_fl (Fin r) (Fin m) None =
         Inr (int_trunc (max (r + 1) m * of_int GB_TO_BYTES), d)"
  "smart_mode_fl (Fin r) (Fin m) (Some (Fin 0, used_fl, free_fl)) = Inl ZeroDivisionError"
  "t \<noteq> 0 \<Longrightarrow> \<exists>d. smart_mode_fl (Fin r) (Fin m) (Some (Fin t, Fin u, Fin f)) =
         Inr (int_trunc (smart_value_spec r m t u f * of_int GB_TO_BYTES), d)"
  by (simp_all add: smart_mode_fl_def max_fl_Fin min_fl_Fin return_bytes_Fin strategy_lookup
      smart_value_spec_def MAX_RESERVED_RATIO_def Let_def)

lemma auto_mode_fl_NaN:
  "auto_mode_fl r m (Some (t, NaN, f)) = Inl ValueError"
  by (simp add: auto_mode_fl_def max_fl_def min_fl_def return_bytes_NaN Let_def)

lemma calc_fl_manual:
  "calculate_reserved_memory_fl r ''manual'' i m g = manual_mode_fl r m (g i)"
  by (simp add: calculate_reserved_memory_fl_def)

lemma calc_fl_auto:
  "calculate_reserved_memory_fl r ''auto'' i m g = auto_mode_fl r m (g i)"
  by (simp add: calculate_reserved_memory_fl_def)

lemma calc_fl_smart:
  "calculate_reserved_memory_fl r ''smart'' i m g = smart_mode_fl r m (g i)"
  by (simp add: calculate_reserved_memory_fl_def)

lemma calc_fl_unknown:
  "mode \<notin> {''manual'', ''auto'', ''smart''} \<Longrightarrow>
   calculate_reserved_memory_fl (Fin r) mode i (Fin m) g =
     Inr (int_trunc (max r m * of_int GB_TO_BYTES), Default_mode)"
  by (simp add: calculate_reserved_memory_fl_def max_fl_Fin return_bytes_Fin)

text \<open>
  C5 as stated fails, for negative fields and for non-finite ones: a snapshot is used
  as it is given. With \<open>used_gb = -1\<close> on a device of 24 GiB, auto mode with a target of
  10 GB returns 9 GiB, where its fallback without a snapshot returns 10 GiB; a negative
  total gives a negative byte count in manual mode; and with \<open>used_gb = NaN\<close> auto mode
  raises \<^verbatim>\<open>ValueError\<close> at \<^verbatim>\<open>int\<close> instead of falling back.
\<close>

theorem snapshot_not_validated_counterexample:
  "calculate_reserved_memory 10 ''auto'' 0 2
     (one_device (24 * GB_TO_BYTES) (- GB_TO_BYTES) (25 * GB_TO_BYTES))
     = Inr (9663676416, Auto_info 9 (- 1) 10)
   \<and> calculate_reserved_memory 10 ''auto'' 0 2 no_telemetry = Inr (10737418240, Manual_no_gpu 10)
   \<and> calculate_reserved_memory 1 ''manual'' 0 2 (one_device (- GB_TO_BYTES) 0 0)
     = Inr (- 966367641, Manual_limited 1 (- (9 / 10)))
   \<and> bytes_of (calculate_reserved_memory_fl (Fin 10) ''auto'' 0 (Fin 2)
        (fixed_manager (Some (Fin 24, Fin (- 1), Fin 25)))) = Some 9663676416
   \<and> calculate_reserved_memory_fl (Fin 10) ''auto'' 0 (Fin 2)
        (fixed_manager (Some (Fin 24, NaN, Fin 4))) = Inl ValueError
   \<and> bytes_of (calculate_reserved_memory_fl (Fin 10) ''auto'' 0 (Fin 2) (fixed_manager None))
     = Some 10737418240"
proof -
  have exact: "calculate_reserved_memory 10 ''auto'' 0 2
     (one_device (24 * GB_TO_BYTES) (- GB_TO_BYTES) (25 * GB_TO_BYTES))
     = Inr (9663676416, Auto_info 9 (- 1) 10)
   \<and> calculate_reserved_memory 10 ''auto'' 0 2 no_telemetry = Inr (10737418240, Manual_no_gpu 10)
   \<and> calculate_reserved_memory 1 ''manual'' 0 2 (one_device (- GB_TO_BYTES) 0 0)
     = Inr (- 966367641, Manual_limited 1 (- (9 / 10)))"
    by (simp add: calc_auto calc_manual one_device_info no_telemetry_info auto_mode_def
        manual_mode_def MAX_RESERVED_RATIO_def int_trunc_def gb_value ceiling_eq_iff)
  have neg: "bytes_of (calculate_reserved_memory_fl (Fin 10) ''auto'' 0 (Fin 2)
        (fixed_manager (Some (Fin 24, Fin (- 1), Fin 25)))) = Some 9663676416"
    by (simp add: calc_fl_auto fixed_manager_def auto_mode_fl_def max_fl_Fin min_fl_Fin
        return_bytes_Fin bytes_of_def int_trunc_def gb_value Let_def)
  have nan: "calculate_reserved_memory_fl (Fin 10) ''auto'' 0 (Fin 2)
        (fixed_manager (Some (Fin 24, NaN, Fin 4))) = Inl ValueError"
    by (simp add: calc_fl_auto fixed_manager_def auto_mode_fl_NaN)
  have none: "bytes_of (calculate_reserved_memory_fl (Fin 10) ''auto'' 0 (Fin 2)
        (fixed_manager None)) = Some 10737418240"
    by (simp add: calc_fl_auto fixed_manager_def auto_mode_fl_def manual_mode_fl_def max_fl_Fin
        return_bytes_Fin bytes_of_def int_trunc_def gb_value Let_def)
  from exact neg nan none show ?thesis by blast
qed

text \<open>
  C5, as amended. The calculator does not inspect the fields of a snapshot, negative or
  non-finite: only when the telemetry gives no snapshot does a mode take its fallback,
  the bytes of \<open>max target_gb min_safe_gb\<close>, in smart mode of
  \<open>max (target_gb + 1) min_safe_gb\<close>. A NaN that reaches \<^verbatim>\<open>int\<close> raises: auto mode on a
  snapshot whose \<open>used_gb\<close> is NaN raises \<^verbatim>\<open>ValueError\<close>, whatever the other values are.
  When the request is finite with \<open>min_safe_gb\<close> not negative, and the snapshot, if
  there is one, has finite fields and a total that is not negative (all of them within
  \<open>2^64\<close> in magnitude), every byte count the calculator returns is not negative, and it
  returns one unless the mode is smart and the total is zero, where the division
  raises. The bound on the magnitudes is not needed by the model, whose finite
  arithmetic does not overflow; it is the range in which Python's does not either.
\<close>

theorem snapshot_not_validated:
  "(0 \<le> min_safe_gb \<and> in_range target_gb \<and> in_range min_safe_gb
      \<and> (gpu_manager gpu_index = None
           \<or> (\<exists>t u f. gpu_manager gpu_index = Some (Fin t, Fin u, Fin f)
                 \<and> 0 \<le> t \<and> in_range t \<and> in_range u \<and> in_range f))
     \<longrightarrow> (case calculate_reserved_memory_fl (Fin target_gb) mode gpu_index (Fin min_safe_gb)
                  gpu_manager of
            Inr (b, d) \<Rightarrow> 0 \<le> b
          | Inl e \<Rightarrow> e = ZeroDivisionError \<and> mode = ''smart''
                     \<and> (\<exists>u f. gpu_manager gpu_index = Some (Fin 0, u, f))))
   \<and> (gpu_manager gpu_index = None
     \<longrightarrow> bytes_of (calculate_reserved_memory_fl (Fin target_gb) mode gpu_index (Fin min_safe_gb)
                    gpu_manager) =
           Some (int_trunc ((if mode = ''smart'' then max (target_gb + 1) min_safe_gb
                             else max target_gb min_safe_gb) * of_int GB_TO_BYTES)))
   \<and> (\<forall>total_fl free_fl. gpu_manager gpu_index = Some (total_fl, NaN, free_fl)
     \<longrightarrow> calculate_reserved_memory_fl reserved_fl ''auto'' gpu_index min_safe_fl gpu_manager =
           Inl ValueError)"
proof -
  let ?res = "calculate_reserved_memory_fl (Fin target_gb) mode gpu_index (Fin min_safe_gb)
                gpu_manager"
  have known: "mode = ''manual'' \<or> mode = ''auto'' \<or> mode = ''smart''"
    if "mode \<in> {''manual'', ''auto'', ''smart''}" using that by auto
  have fallback: "bytes_of ?res =
      Some (int_trunc ((if mode = ''smart'' then max (target_gb + 1) min_safe_gb
                        else max target_gb min_safe_gb) * of_int GB_TO_BYTES))"
    if n: "gpu_manager gpu_index = None"
  proof (cases "mode \<in> {''manual'', ''auto'', ''smart''}")
    case False
    then show ?thesis by (simp add: calc_fl_unknown bytes_of_def)
  next
    case True
    from known [OF True] show ?thesis
      using manual_mode_fl_finite(1) [of target_gb min_safe_gb]
        auto_mode_fl_finite(1) [of target_gb min_safe_gb]
        smart_mode_fl_finite(1) [of target_gb min_safe_gb]
      by (auto simp add: calc_fl_manual calc_fl_auto calc_fl_smart n bytes_of_def)
  qed
  have sign: "case ?res of Inr (b, d) \<Rightarrow> 0 \<le> b
      | Inl e \<Rightarrow> e = ZeroDivisionError \<and> mode = ''smart''
                 \<and> (\<exists>u f. gpu_manager gpu_index = Some (Fin 0, u, f))"
    if m: "0 \<le> min_safe_gb"
      and s: "gpu_manager gpu_index = None
           \<or> (\<exists>t u f. gpu_manager gpu_index = Some (Fin t, Fin u, Fin f) \<and> 0 \<le> t)"
  proof (cases "mode \<in> {''manual'', ''auto'', ''smart''}")
    case False
    from m have "0 \<le> max target_gb min_safe_gb" by simp
    with False show ?thesis by (simp add: calc_fl_unknown bytes_nonneg)
  next
    case True
    note mode = known [OF True]
    from s show ?thesis
    proof
      assume n: "gpu_manager gpu_index = None"
      from m have "0 \<le> int_trunc (max target_gb min_safe_gb * of_int GB_TO_BYTES)"
        and "0 \<le> int_trunc (max (target_gb + 1) min_safe_gb * of_int GB_TO_BYTES)"
        by (simp_all add: bytes_nonneg)
      with mode show ?thesis
        using manual_mode_fl_finite(1) [of target_gb min_safe_gb]
          auto_mode_fl_finite(1) [of target_gb min_safe_gb]
          smart_mode_fl_finite(1) [of target_gb min_safe_gb]
        by (auto simp add: calc_fl_manual calc_fl_auto calc_fl_smart n)
    next
      assume "\<exists>t u f. gpu_manager gpu_index = Some (Fin t, Fin u, Fin f) \<and> 0 \<le> t"
      then obtain t u f where snap: "gpu_manager gpu_index = Some (Fin t, Fin u, Fin f)"
        and t: "0 \<le> t" by blast
      from m t have b1: "0 \<le> int_trunc (min (max target_gb min_safe_gb) (t * (9 / 10))
                                   * of_int GB_TO_BYTES)"
        and b2: "0 \<le> int_trunc (min (max (u + target_gb) min_safe_gb) (t * (85 / 100))
                                   * of_int GB_TO_BYTES)"
        by (simp_all add: bytes_nonneg)
      from mode show ?thesis
      proof (elim disjE)
        assume "mode = ''manual''"
        with b1 manual_mode_fl_finite(2) [of target_gb min_safe_gb t u f] snap show ?thesis
          by (auto simp add: calc_fl_manual)
      next
        assume "mode = ''auto''"
        with b2 auto_mode_fl_finite(2) [of target_gb min_safe_gb t u f] snap show ?thesis
          by (auto simp add: calc_fl_auto)
      next
        assume sm: "mode = ''smart''"
        show ?thesis
        proof (cases "t = 0")
          case True
          with sm snap show ?thesis by (simp add: calc_fl_smart smart_mode_fl_finite(2))
        next
          case False
          from m t have "0 \<le> smart_value_spec target_gb min_safe_gb t u f"
            by (simp add: smart_value_spec_def Let_def)
          then have "0 \<le> int_trunc (smart_value_spec target_gb min_safe_gb t u f
                                       * of_int GB_TO_BYTES)"
            by (rule bytes_nonneg)
          with smart_mode_fl_finite(3) [OF False, of target_gb min_safe_gb u f] sm snap
          show ?thesis by (auto simp add: calc_fl_smart)
        qed
      qed
    qed
  qed
  have nan: "calculate_reserved_memory_fl reserved_fl ''auto'' gpu_index min_safe_fl gpu_manager =
           Inl ValueError"
    if "gpu_manager gpu_index = Some (total_fl, NaN, free_fl)" for total_fl free_fl
    using that by (simp add: calc_fl_auto auto_mode_fl_NaN)
  from fallback sign nan show ?thesis by blast
qed

theorem snapshot_not_validated_witness:
  "(0::rat) \<le> 2 \<and> in_range 10 \<and> in_range 2 \<and> in_range 24 \<and> in_range (- 1) \<and> in_range 25
   \<and> fixed_manager (Some (Fin 24, Fin (- 1), Fin 25)) 0 = Some (Fin 24, Fin (- 1), Fin 25)
   \<and> (case calculate_reserved_memory_fl (Fin 10) ''auto'' 0 (Fin 2)
              (fixed_manager (Some (Fin 24, Fin (- 1), Fin 25))) of
         Inr (b, d) \<Rightarrow> 0 \<le> b | Inl e \<Rightarrow> False)
   \<and> fixed_manager None 0 = None
   \<and> bytes_of (calculate_reserved_memory_fl (Fin 10) ''smart'' 0 (Fin 2) (fixed_manager None))
       = Some 11811160064
   \<and> fixed_manager (Some (Fin 24, NaN, Fin 4)) 0 = Some (Fin 24, NaN, Fin 4)
   \<and> calculate_reserved_memory_fl (Fin 1) ''auto'' 0 (Fin 2)
        (fixed_manager (Some (Fin 24, NaN, Fin 4))) = Inl ValueError"
proof -
  let ?g = "fixed_manager (Some (Fin 24, Fin (- 1), Fin 25))"
  let ?n = "fixed_manager (Some (Fin 24, NaN, Fin 4))"
  have r: "in_range 10" "in_range 2" "in_range 24" "in_range (- 1)" "in_range 25"
    by (simp_all add: in_range_def)
  have g: "?g 0 = Some (Fin 24, Fin (- 1), Fin 25)" by (simp add: fixed_manager_def)
  have n: "fixed_manager None 0 = None" by (simp add: fixed_manager_def)
  have q: "?n 0 = Some (Fin 24, NaN, Fin 4)" by (simp add: fixed_manager_def)
  have v: "int_trunc (max (10 + 1) 2 * of_int GB_TO_BYTES) = 11811160064"
    by (simp add: int_trunc_def gb_value)
  from snapshot_not_validated [where gpu_manager = ?g and gpu_index = 0 and target_gb = 10
      and min_safe_gb = 2 and mode = "''auto''", THEN conjunct1] r g
  have one: "case calculate_reserved_memory_fl (Fin 10) ''auto'' 0 (Fin 2) ?g of
         Inr (b, d) \<Rightarrow> 0 \<le> b | Inl e \<Rightarrow> False"
    by (auto split: sum.splits)
  from snapshot_not_validated [where gpu_manager = "fixed_manager None" and gpu_index = 0
      and target_gb = 10 and min_safe_gb = 2 and mode = "''smart''",
      THEN conjunct2, THEN conjunct1] n v
  have two: "bytes_of (calculate_reserved_memory_fl (Fin 10) ''smart'' 0 (Fin 2)
               (fixed_manager None)) = Some 11811160064"
    by simp
  from snapshot_not_validated [where gpu_manager = ?n and gpu_index = 0
      and reserved_fl = "Fin 1" and min_safe_fl = "Fin 2",
      THEN conjunct2, THEN conjunct2] q
  have three: "calculate_reserved_memory_fl (Fin 1) ''auto'' 0 (Fin 2) ?n = Inl ValueError"
    by blast
  from r g one n two q three show ?thesis by simp
qed

subsection \<open>The ceiling\<close>

lemma ceiling_known:
  assumes "mode \<in> {''manual'', ''auto'', ''smart''}"
    and "get_gpu_memory_info w gpu_index = Some (total_gb, used_gb, free_gb)"
    and "0 \<le> total_gb"
  shows "case calculate_reserved_memory target_gb mode gpu_index min_safe_gb w of
           Inr (b, d) \<Rightarrow>
             of_int b \<le> total_gb * (9 / 10) * of_int GB_TO_BYTES
             \<and> (mode = ''auto'' \<longrightarrow> of_int b \<le> total_gb * (85 / 100) * of_int GB_TO_BYTES)
         | Inl e \<Rightarrow> mode = ''smart'' \<and> total_gb = 0"
proof -
  have cap: "of_int (int_trunc (min x (total_gb * c) * of_int GB_TO_BYTES))
               \<le> total_gb * c * of_int GB_TO_BYTES" if "0 \<le> c" for x c
  proof (cases "0 \<le> x")
    case True
    with that assms(3) have "0 \<le> min x (total_gb * c)" by simp
    then have "of_int (int_trunc (min x (total_gb * c) * of_int GB_TO_BYTES))
                 \<le> min x (total_gb * c) * of_int GB_TO_BYTES" by (rule bytes_le)
    also have "\<dots> \<le> total_gb * c * of_int GB_TO_BYTES" by (rule scale_mono) simp
    finally show ?thesis .
  next
    case False
    then have neg: "min x (total_gb * c) * rat_of_int GB_TO_BYTES < 0"
      using gb_pos by (simp add: mult_less_0_iff min_less_iff_disj)
    then have "int_trunc (min x (total_gb * c) * of_int GB_TO_BYTES) \<le> 0"
      by (simp add: int_trunc_def)
    then have "rat_of_int (int_trunc (min x (total_gb * c) * of_int GB_TO_BYTES)) \<le> 0" by simp
    also from that assms(3) gb_pos have "0 \<le> total_gb * c * of_int GB_TO_BYTES" by simp
    finally show ?thesis .
  qed
  have widen: "total_gb * (85 / 100) * of_int GB_TO_BYTES \<le> total_gb * (9 / 10) * of_int GB_TO_BYTES"
    using assms(3) by (intro scale_mono) simp
  from assms(1) consider "mode = ''manual''" | "mode = ''auto''" | "mode = ''smart''" by auto
  then show ?thesis
  proof cases
    case 1
    have "rat_of_int (fst (manual_mode target_gb min_safe_gb (Some (total_gb, used_gb, free_gb))))
            \<le> total_gb * (9 / 10) * of_int GB_TO_BYTES"
      by (simp only: manual_mode_bytes) (rule cap, simp)
    with 1 assms(2) show ?thesis by (simp add: calc_manual case_prod_beta)
  next
    case 2
    have "rat_of_int (fst (auto_mode target_gb min_safe_gb (Some (total_gb, used_gb, free_gb))))
            \<le> total_gb * (85 / 100) * of_int GB_TO_BYTES"
      by (simp only: auto_mode_bytes) (rule cap, simp)
    with widen 2 assms(2) show ?thesis by (simp add: calc_auto case_prod_beta)
  next
    case 3
    show ?thesis
    proof (cases "total_gb = 0")
      case True
      with 3 assms(2) show ?thesis by (simp add: calc_smart smart_mode_zero)
    next
      case False
      have "smart_value_spec target_gb min_safe_gb total_gb used_gb free_gb =
              min (smart_value_spec target_gb min_safe_gb total_gb used_gb free_gb) (total_gb * (9 / 10))"
        using smart_value_bounds(1) [of target_gb min_safe_gb total_gb used_gb free_gb] by simp
      then have "rat_of_int (int_trunc (smart_value_spec target_gb min_safe_gb total_gb used_gb free_gb
                    * of_int GB_TO_BYTES)) \<le> total_gb * (9 / 10) * of_int GB_TO_BYTES"
        using cap [of "9 / 10" "smart_value_spec target_gb min_safe_gb total_gb used_gb free_gb"]
        by simp
      with smart_mode_Some [OF False, of target_gb min_safe_gb used_gb free_gb] 3 assms(2)
      show ?thesis by (auto simp add: calc_smart)
    qed
  qed
qed

text \<open>
  C6 as stated fails for a mode string that is not recognised: on a device of 24 GiB
  the mode \<open>''turbo''\<close> with a target of 32 GB returns 32 GiB, above 90 percent of the
  total.
\<close>

theorem ceiling_counterexample:
  "get_gpu_memory_info (one_device (24 * GB_TO_BYTES) (20 * GB_TO_BYTES) (4 * GB_TO_BYTES)) 0
     = Some (24, 20, 4)
   \<and> calculate_reserved_memory 32 ''turbo'' 0 2
       (one_device (24 * GB_TO_BYTES) (20 * GB_TO_BYTES) (4 * GB_TO_BYTES))
     = Inr (34359738368, Default_mode)
   \<and> \<not> (rat_of_int 34359738368 \<le> 24 * (9 / 10) * rat_of_int GB_TO_BYTES)"
  by (simp add: calculate_reserved_memory_def one_device_info int_trunc_def gb_value)

text \<open>
  C6, as amended. In each of the modes manual, auto and smart, with a snapshot whose
  total is not negative, the byte count returned is at most \<open>total_gb * 0.9 * 2^30\<close>, and
  in auto mode at most \<open>total_gb * 0.85 * 2^30\<close>; a byte count is returned unless the
  mode is smart and the total is zero. A mode string that is not recognised has no
  ceiling: it returns the bytes of \<open>max target_gb min_safe_gb\<close> whatever the snapshot is.
\<close>

theorem ceiling_by_mode:
  assumes "get_gpu_memory_info w gpu_index = Some (total_gb, used_gb, free_gb)"
    and "0 \<le> total_gb"
  shows "(mode \<in> {''manual'', ''auto'', ''smart''} \<longrightarrow>
           (case calculate_reserved_memory target_gb mode gpu_index min_safe_gb w of
              Inr (b, d) \<Rightarrow>
                of_int b \<le> total_gb * (9 / 10) * of_int GB_TO_BYTES
                \<and> (mode = ''auto'' \<longrightarrow> of_int b \<le> total_gb * (85 / 100) * of_int GB_TO_BYTES)
            | Inl e \<Rightarrow> mode = ''smart'' \<and> total_gb = 0))
       \<and> (mode \<notin> {''manual'', ''auto'', ''smart''} \<longrightarrow>
           calculate_reserved_memory target_gb mode gpu_index min_safe_gb w =
             Inr (int_trunc (max target_gb min_safe_gb * of_int GB_TO_BYTES), Default_mode))"
proof (intro conjI impI)
  assume "mode \<in> {''manual'', ''auto'', ''smart''}"
  from ceiling_known [OF this assms]
  show "case calculate_reserved_memory target_gb mode gpu_index min_safe_gb w of
              Inr (b, d) \<Rightarrow>
                of_int b \<le> total_gb * (9 / 10) * of_int GB_TO_BYTES
                \<and> (mode = ''auto'' \<longrightarrow> of_int b \<le> total_gb * (85 / 100) * of_int GB_TO_BYTES)
            | Inl e \<Rightarrow> mode = ''smart'' \<and> total_gb = 0" .
next
  assume "mode \<notin> {''manual'', ''auto'', ''smart''}"
  then show "calculate_reserved_memory target_gb mode gpu_index min_safe_gb w =
             Inr (int_trunc (max target_gb min_safe_gb * of_int GB_TO_BYTES), Default_mode)"
    by (rule calc_unknown)
qed

theorem ceiling_by_mode_witness:
  "get_gpu_memory_info (one_device (24 * GB_TO_BYTES) (20 * GB_TO_BYTES) (4 * GB_TO_BYTES)) 0
       = Some (24, 20, 4)
   \<and> (0::rat) \<le> 24
   \<and> ''auto'' \<in> {''manual'', ''auto'', ''smart''}
   \<and> (case calculate_reserved_memory 32 ''auto'' 0 2
              (one_device (24 * GB_TO_BYTES) (20 * GB_TO_BYTES) (4 * GB_TO_BYTES)) of
         Inr (b, d) \<Rightarrow> rat_of_int b \<le> 24 * (85 / 100) * of_int GB_TO_BYTES
       | Inl e \<Rightarrow> False)
   \<and> ''turbo'' \<notin> {''manual'', ''auto'', ''smart''}
   \<and> calculate_reserved_memory 32 ''turbo'' 0 2
        (one_device (24 * GB_TO_BYTES) (20 * GB_TO_BYTES) (4 * GB_TO_BYTES))
       = Inr (34359738368, Default_mode)"
proof -
  let ?w = "one_device (24 * GB_TO_BYTES) (20 * GB_TO_BYTES) (4 * GB_TO_BYTES)"
  have h1: "get_gpu_memory_info ?w 0 = Some (24, 20, 4)" by (simp add: one_device_info gb_value)
  have h2: "(0::rat) \<le> 24" by simp
  have m1: "''auto'' \<in> {''manual'', ''auto'', ''smart''}" by simp
  have m2: "''turbo'' \<notin> {''manual'', ''auto'', ''smart''}" by simp
  have v: "int_trunc (max 32 2 * of_int GB_TO_BYTES) = 34359738368"
    by (simp add: int_trunc_def gb_value)
  from ceiling_by_mode [OF h1 h2, where mode = "''auto''" and target_gb = 32
      and min_safe_gb = 2, THEN conjunct1] m1
  have one: "case calculate_reserved_memory 32 ''auto'' 0 2 ?w of
         Inr (b, d) \<Rightarrow> rat_of_int b \<le> 24 * (85 / 100) * of_int GB_TO_BYTES
       | Inl e \<Rightarrow> False"
    by (auto split: sum.splits)
  from ceiling_by_mode [OF h1 h2, where mode = "''turbo''" and target_gb = 32
      and min_safe_gb = 2, THEN conjunct2] m2 v
  have two: "calculate_reserved_memory 32 ''turbo'' 0 2 ?w = Inr (34359738368, Default_mode)"
    by simp
  from h1 h2 m1 one m2 two show ?thesis by blast
qed

subsection \<open>The reclaimer\<close>

lemma clear_gpu_memory_raise:
  "cuda_is_available w \<Longrightarrow> empty_cache ext w = (Some e, w1) \<Longrightarrow>
   clear_gpu_memory ext w gpu_index =
     (\<lparr>success = False, torch_cuda = False, gc_collected = 0,
       before_memory = get_gpu_memory_info w gpu_index, after_memory = None,
       freed_memory_gb = 0, freed_memory_mb = 0\<rparr>, w1)"
  by (simp add: clear_gpu_memory_def)

text \<open>
  C8 as stated fails when the release of the cache raises: the snapshot after it is
  never taken, the freed memory is 0 and the report is marked as failed.
\<close>

theorem reclaim_counterexample:
  "before_memory (fst (clear_gpu_memory failing_externals
      (one_device (24 * GB_TO_BYTES) (20 * GB_TO_BYTES) (4 * GB_TO_BYTES)) 0)) = Some (24, 20, 4)
   \<and> after_memory (fst (clear_gpu_memory failing_externals
      (one_device (24 * GB_TO_BYTES) (20 * GB_TO_BYTES) (4 * GB_TO_BYTES)) 0)) = None
   \<and> freed_memory_gb (fst (clear_gpu_memory failing_externals
      (one_device (24 * GB_TO_BYTES) (20 * GB_TO_BYTES) (4 * GB_TO_BYTES)) 0)) = 0
   \<and> \<not> success (fst (clear_gpu_memory failing_externals
      (one_device (24 * GB_TO_BYTES) (20 * GB_TO_BYTES) (4 * GB_TO_BYTES)) 0))"
proof -
  let ?w = "one_device (24 * GB_TO_BYTES) (20 * GB_TO_BYTES) (4 * GB_TO_BYTES)"
  have c: "cuda_is_available ?w" by (simp add: one_device_def)
  have e: "empty_cache failing_externals ?w = (Some RuntimeError, ?w)"
    by (simp add: failing_externals_def)
  have i: "get_gpu_memory_info ?w 0 = Some (24, 20, 4)" by (simp add: one_device_info gb_value)
  show ?thesis by (simp add: clear_gpu_memory_raise [OF c e] i)
qed

text \<open>
  C8, as amended. When the calls that release the cache do not raise, the report holds
  the snapshot taken before them and the one taken after them and is marked
  successful; with both snapshots the freed memory is \<open>used_before - used_after\<close>, of
  either sign, and when one of them is missing it is 0. When a call that releases the
  cache raises, the report holds the snapshot taken before, none after, a freed memory
  of 0, and is marked as failed.
\<close>

theorem clear_gpu_memory_report:
  "(\<forall>w1 collected w2.
       (if cuda_is_available w then empty_cache ext w else (None, w)) = (None, w1)
       \<and> gc_collect ext w1 = (collected, w2)
     \<longrightarrow> before_memory (fst (clear_gpu_memory ext w gpu_index)) = get_gpu_memory_info w gpu_index
         \<and> after_memory (fst (clear_gpu_memory ext w gpu_index)) = get_gpu_memory_info w2 gpu_index
         \<and> success (fst (clear_gpu_memory ext w gpu_index))
         \<and> freed_memory_gb (fst (clear_gpu_memory ext w gpu_index)) =
             (case (get_gpu_memory_info w gpu_index, get_gpu_memory_info w2 gpu_index) of
                (Some (total_before, used_before, free_before),
                 Some (total_after, used_after, free_after)) \<Rightarrow> used_before - used_after
              | _ \<Rightarrow> 0))
   \<and> (\<forall>e w1.
       (if cuda_is_available w then empty_cache ext w else (None, w)) = (Some e, w1)
     \<longrightarrow> before_memory (fst (clear_gpu_memory ext w gpu_index)) = get_gpu_memory_info w gpu_index
         \<and> after_memory (fst (clear_gpu_memory ext w gpu_index)) = None
         \<and> \<not> success (fst (clear_gpu_memory ext w gpu_index))
         \<and> freed_memory_gb (fst (clear_gpu_memory ext w gpu_index)) = 0)"
proof -
  have normal: "before_memory (fst (clear_gpu_memory ext w gpu_index)) = get_gpu_memory_info w gpu_index
         \<and> after_memory (fst (clear_gpu_memory ext w gpu_index)) = get_gpu_memory_info w2 gpu_index
         \<and> success (fst (clear_gpu_memory ext w gpu_index))
         \<and> freed_memory_gb (fst (clear_gpu_memory ext w gpu_index)) =
             (case (get_gpu_memory_info w gpu_index, get_gpu_memory_info w2 gpu_index) of
                (Some (total_before, used_before, free_before),
                 Some (total_after, used_after, free_after)) \<Rightarrow> used_before - used_after
              | _ \<Rightarrow> 0)"
    if "(if cuda_is_available w then empty_cache ext w else (None, w)) = (None, w1)
       \<and> gc_collect ext w1 = (collected, w2)" for w1 collected w2
    using that
    by (cases "get_gpu_memory_info w gpu_index"; cases "get_gpu_memory_info w2 gpu_index")
       (auto simp add: clear_gpu_memory_def Let_def split: if_splits)
  have raised: "before_memory (fst (clear_gpu_memory ext w gpu_index)) = get_gpu_memory_info w gpu_index
         \<and> after_memory (fst (clear_gpu_memory ext w gpu_index)) = None
         \<and> \<not> success (fst (clear_gpu_memory ext w gpu_index))
         \<and> freed_memory_gb (fst (clear_gpu_memory ext w gpu_index)) = 0"
    if a: "(if cuda_is_available w then empty_cache ext w else (None, w)) = (Some e, w1)"
    for e w1
  proof -
    from a have c: "cuda_is_available w" and r: "empty_cache ext w = (Some e, w1)"
      by (auto split: if_splits)
    show ?thesis by (simp add: clear_gpu_memory_raise [OF c r])
  qed
  from normal raised show ?thesis by blast
qed

theorem clear_gpu_memory_report_witness:
  "freed_memory_gb (fst (clear_gpu_memory busy_externals
      (one_device (24 * GB_TO_BYTES) (20 * GB_TO_BYTES) (4 * GB_TO_BYTES)) 0)) = - 2
   \<and> success (fst (clear_gpu_memory busy_externals
      (one_device (24 * GB_TO_BYTES) (20 * GB_TO_BYTES) (4 * GB_TO_BYTES)) 0))
   \<and> before_memory (fst (clear_gpu_memory blind_externals
      (one_device (24 * GB_TO_BYTES) (20 * GB_TO_BYTES) (4 * GB_TO_BYTES)) 0)) = Some (24, 20, 4)
   \<and> after_memory (fst (clear_gpu_memory blind_externals
      (one_device (24 * GB_TO_BYTES) (20 * GB_TO_BYTES) (4 * GB_TO_BYTES)) 0)) = None
   \<and> freed_memory_gb (fst (clear_gpu_memory blind_externals
      (one_device (24 * GB_TO_BYTES) (20 * GB_TO_BYTES) (4 * GB_TO_BYTES)) 0)) = 0
   \<and> success (fst (clear_gpu_memory blind_externals
      (one_device (24 * GB_TO_BYTES) (20 * GB_TO_BYTES) (4 * GB_TO_BYTES)) 0))
   \<and> empty_cache failing_externals
        (one_device (24 * GB_TO_BYTES) (20 * GB_TO_BYTES) (4 * GB_TO_BYTES))
       = (Some RuntimeError, one_device (24 * GB_TO_BYTES) (20 * GB_TO_BYTES) (4 * GB_TO_BYTES))
   \<and> \<not> success (fst (clear_gpu_memory failing_externals
      (one_device (24 * GB_TO_BYTES) (20 * GB_TO_BYTES) (4 * GB_TO_BYTES)) 0))"
proof -
  let ?w = "one_device (24 * GB_TO_BYTES) (20 * GB_TO_BYTES) (4 * GB_TO_BYTES)"
  let ?busy = "?w\<lparr>nvmlDeviceGetMemoryInfo :=
          (\<lambda>i. if i = 0 then Some (24 * GB_TO_BYTES, 22 * GB_TO_BYTES, 2 * GB_TO_BYTES)
                else None)\<rparr>"
  let ?blind = "?w\<lparr>nvmlDeviceGetMemoryInfo := (\<lambda>i. None)\<rparr>"
  have b: "(if cuda_is_available ?w then empty_cache busy_externals ?w else (None, ?w))
              = (None, ?busy) \<and> gc_collect busy_externals ?busy = (0, ?busy)"
    by (simp add: busy_externals_def one_device_def)
  have n: "(if cuda_is_available ?w then empty_cache blind_externals ?w else (None, ?w))
              = (None, ?blind) \<and> gc_collect blind_externals ?blind = (0, ?blind)"
    by (simp add: blind_externals_def one_device_def)
  have e: "empty_cache failing_externals ?w = (Some RuntimeError, ?w)"
    by (simp add: failing_externals_def)
  have f: "(if cuda_is_available ?w then empty_cache failing_externals ?w else (None, ?w))
              = (Some RuntimeError, ?w)"
    by (simp add: failing_externals_def one_device_def)
  have i0: "get_gpu_memory_info ?w 0 = Some (24, 20, 4)" by (simp add: one_device_info gb_value)
  have i1: "get_gpu_memory_info ?busy 0 = Some (24, 22, 2)"
    by (simp add: get_gpu_memory_info_def validate_gpu_index_def get_gpu_count_def
        one_device_def gb_value)
  have i2: "get_gpu_memory_info ?blind 0 = None"
    by (simp add: get_gpu_memory_info_def validate_gpu_index_def get_gpu_count_def one_device_def)
  from clear_gpu_memory_report [where ext = busy_externals and w = ?w and gpu_index = 0,
      THEN conjunct1, rule_format, OF b] i0 i1
  have busy: "freed_memory_gb (fst (clear_gpu_memory busy_externals ?w 0)) = - 2
      \<and> success (fst (clear_gpu_memory busy_externals ?w 0))" by simp
  from clear_gpu_memory_report [where ext = blind_externals and w = ?w and gpu_index = 0,
      THEN conjunct1, rule_format, OF n] i0 i2
  have blind: "before_memory (fst (clear_gpu_memory blind_externals ?w 0)) = Some (24, 20, 4)
      \<and> after_memory (fst (clear_gpu_memory blind_externals ?w 0)) = None
      \<and> freed_memory_gb (fst (clear_gpu_memory blind_externals ?w 0)) = 0
      \<and> success (fst (clear_gpu_memory blind_externals ?w 0))" by simp
  from clear_gpu_memory_report [where ext = failing_externals and w = ?w and gpu_index = 0,
      THEN conjunct2, rule_format, OF f]
  have failing: "\<not> success (fst (clear_gpu_memory failing_externals ?w 0))" by simp
  from busy blind e failing show ?thesis by blast
qed

subsection \<open>The nodes\<close>

text \<open>
  C9. An index that fails validation does not make \<open>set_memory\<close> raise or do without
  telemetry: the call behaves as the call with index 0. With neither the display nor
  the cleaning switched on, the slot receives the bytes the calculator gives for index
  0, or the safe default where the calculator raises.
\<close>

theorem set_memory_invalid_index:
  assumes "\<not> validate_gpu_index w gpu_index"
  shows "set_memory ext anything reserved mode gpu_index min_safe_reserve clear_memory
           show_gpu_info_flag w =
         set_memory ext anything reserved mode 0 min_safe_reserve clear_memory
           show_gpu_info_flag w
       \<and> set_memory ext anything reserved mode gpu_index min_safe_reserve False False w =
           (anything,
            w\<lparr>EXTRA_RESERVED_MEMORY :=
                (case calculate_reserved_memory reserved mode 0 min_safe_reserve w of
                   Inr (reserved_bytes, detail) \<Rightarrow> reserved_bytes
                 | Inl e \<Rightarrow>
                     int_trunc (max DEFAULT_RESERVED_GB min_safe_reserve * of_int GB_TO_BYTES))\<rparr>)"
proof -
  have t: "set_memory_try ext reserved mode gpu_index min_safe_reserve clear_memory
             show_gpu_info_flag w =
           set_memory_try ext reserved mode 0 min_safe_reserve clear_memory show_gpu_info_flag w"
    using assms by (simp add: set_memory_try_def)
  have a: "set_memory ext anything reserved mode gpu_index min_safe_reserve clear_memory
           show_gpu_info_flag w =
         set_memory ext anything reserved mode 0 min_safe_reserve clear_memory
           show_gpu_info_flag w"
    by (simp add: set_memory_def t)
  have b: "set_memory ext anything reserved mode gpu_index min_safe_reserve False False w =
           (anything,
            w\<lparr>EXTRA_RESERVED_MEMORY :=
                (case calculate_reserved_memory reserved mode 0 min_safe_reserve w of
                   Inr (reserved_bytes, detail) \<Rightarrow> reserved_bytes
                 | Inl e \<Rightarrow>
                     int_trunc (max DEFAULT_RESERVED_GB min_safe_reserve * of_int GB_TO_BYTES))\<rparr>)"
    using assms
    by (cases "calculate_reserved_memory reserved mode 0 min_safe_reserve w")
       (auto simp add: set_memory_def set_memory_try_def Let_def)
  from a b show ?thesis by blast
qed

theorem set_memory_invalid_index_witness:
  "\<not> validate_gpu_index (one_device (24 * GB_TO_BYTES) (20 * GB_TO_BYTES) (4 * GB_TO_BYTES)) 5
   \<and> get_gpu_memory_info (one_device (24 * GB_TO_BYTES) (20 * GB_TO_BYTES) (4 * GB_TO_BYTES)) 5
       = None
   \<and> EXTRA_RESERVED_MEMORY (snd (set_memory quiet_externals () 1 ''smart'' 5 2 False False
       (one_device (24 * GB_TO_BYTES) (20 * GB_TO_BYTES) (4 * GB_TO_BYTES)))) = 22548578304"
proof -
  let ?w = "one_device (24 * GB_TO_BYTES) (20 * GB_TO_BYTES) (4 * GB_TO_BYTES)"
  have h: "\<not> validate_gpu_index ?w 5"
    by (simp add: validate_gpu_index_def get_gpu_count_def one_device_def)
  have n: "get_gpu_memory_info ?w 5 = None"
    by (simp add: get_gpu_memory_info_def h)
  have c: "calculate_reserved_memory 1 ''smart'' 0 2 ?w =
             Inr (22548578304, Smart_info 21 Tight 4 24 (50 / 3) None)"
    by (simp add: calc_smart one_device_info smart_mode_def truediv_def strategy_lookup
        MAX_RESERVED_RATIO_def int_trunc_def gb_value)
  from set_memory_invalid_index [OF h, where ext = quiet_externals and anything = "()"
      and reserved = 1 and mode = "''smart''" and min_safe_reserve = 2
      and clear_memory = False and show_gpu_info_flag = False, THEN conjunct2]
  have "set_memory quiet_externals () 1 ''smart'' 5 2 False False ?w =
          ((), ?w\<lparr>EXTRA_RESERVED_MEMORY := 22548578304\<rparr>)"
    by (simp add: c)
  then have "EXTRA_RESERVED_MEMORY (snd (set_memory quiet_externals () 1 ''smart'' 5 2 False False ?w))
          = 22548578304" by simp
  with h n show ?thesis by blast
qed

text \<open>
  C10. \<open>set_memory\<close> and \<open>clean\<close> return their input \<open>anything\<close> as the first component,
  whatever the other parameters, the device and the collaborators are, also on the
  paths where an exception was caught.
\<close>

theorem anything_passes_through:
  "fst (set_memory ext anything reserved mode gpu_index min_safe_reserve clear_memory
          show_gpu_info_flag w) = anything
   \<and> fst (fst (clean ext anything clear_all_gpus aggressive w)) = anything"
  by (simp add: set_memory_def clean_def Let_def split: prod.splits option.splits)

theorem anything_passes_through_witness:
  "fst (set_memory quiet_externals ''latent'' 1 ''smart'' 0 2 False True (one_device 0 0 0))
     = ''latent''
   \<and> set_memory_try quiet_externals 1 ''smart'' 0 2 False True (one_device 0 0 0)
     = (Some ZeroDivisionError, one_device 0 0 0)
   \<and> fst (fst (clean quiet_externals ''latent'' True True (one_device 0 0 0))) = ''latent''"
proof -
  have e: "set_memory_try quiet_externals 1 ''smart'' 0 2 False True (one_device 0 0 0)
     = (Some ZeroDivisionError, one_device 0 0 0)"
  proof -
    have v: "validate_gpu_index (one_device 0 0 0) 0"
      by (simp add: validate_gpu_index_def get_gpu_count_def one_device_def)
    have i: "get_gpu_memory_info (one_device 0 0 0) 0 = Some (0, 0, 0)"
      by (simp add: one_device_info)
    show ?thesis
      by (simp add: set_memory_try_def show_gpu_info_def get_detailed_info_def v i truediv_def)
  qed
  from anything_passes_through [of quiet_externals "''latent''" 1 "''smart''" 0 2 False True
      "one_device 0 0 0" True True] e
  show ?thesis by simp
qed

end
